theory Spec2Isabelle
  imports Complex_Main
begin

section \<open>Vector arithmetic used by App.cpp\<close>

text \<open>
  The program computes with single-precision floats through the glm library. The ray/sphere
  test, whose Boolean answer depends on rounding, is modelled in binary32 arithmetic (section
  "Single-precision arithmetic"). The other computations are modelled over the real numbers,
  without rounding, overflow or underflow; of their float semantics the model has the
  division by zero, which in the program does not trap but produces an infinity or a NaN:
  every such division goes through \<open>fdiv\<close>, whose value \<open>None\<close> stands for that
  non-finite result. A coordinate of a \<open>vec3\<close> is the number that the float holds.
\<close>

datatype vec3 = Vec3 (vx: real) (vy: real) (vz: real)

datatype vec4 = Vec4 real real real real

fun vadd :: "vec3 \<Rightarrow> vec3 \<Rightarrow> vec3" where
  "vadd (Vec3 a b c) (Vec3 d e f) = Vec3 (a + d) (b + e) (c + f)"

fun vsub :: "vec3 \<Rightarrow> vec3 \<Rightarrow> vec3" where
  "vsub (Vec3 a b c) (Vec3 d e f) = Vec3 (a - d) (b - e) (c - f)"

text \<open>\<open>float * vec3\<close> and \<open>vec3 * float\<close>.\<close>

fun smul :: "real \<Rightarrow> vec3 \<Rightarrow> vec3" where
  "smul k (Vec3 a b c) = Vec3 (k * a) (k * b) (k * c)"

fun vmuls :: "vec3 \<Rightarrow> real \<Rightarrow> vec3" where
  "vmuls (Vec3 a b c) k = Vec3 (a * k) (b * k) (c * k)"

fun dot :: "vec3 \<Rightarrow> vec3 \<Rightarrow> real" where
  "dot (Vec3 a b c) (Vec3 d e f) = a * d + b * e + c * f"

fun cross :: "vec3 \<Rightarrow> vec3 \<Rightarrow> vec3" where
  "cross (Vec3 a b c) (Vec3 d e f) = Vec3 (b * f - e * c) (c * d - f * a) (a * e - d * b)"

text \<open>\<open>glm::length\<close>: the square root of the dot product of the vector with itself.\<close>

definition length_v :: "vec3 \<Rightarrow> real" where
  "length_v v = sqrt (dot v v)"

text \<open>\<open>glm::max\<close> on vectors is componentwise; \<open>glm::clamp(x, lo, hi)\<close> is
  \<open>min(max(x, lo), hi)\<close>.\<close>

fun max_v :: "vec3 \<Rightarrow> vec3 \<Rightarrow> vec3" where
  "max_v (Vec3 a b c) (Vec3 d e f) = Vec3 (max a d) (max b e) (max c f)"

definition clamp :: "real \<Rightarrow> real \<Rightarrow> real \<Rightarrow> real" where
  "clamp x lo hi = min (max x lo) hi"

text \<open>Float division: \<open>None\<close> when the divisor is zero (the program gets an infinity,
  or a NaN for \<open>0 / 0\<close>).\<close>

definition fdiv :: "real \<Rightarrow> real \<Rightarrow> real option" where
  "fdiv x y = (if y = 0 then None else Some (x / y))"

text \<open>\<open>glm::normalize(v)\<close> is \<open>v * inversesqrt(dot(v, v))\<close>, and
  \<open>inversesqrt(x)\<close> is \<open>1 / sqrt(x)\<close>. For the zero vector this is
  \<open>0 * inf\<close>, a vector of NaNs: \<open>None\<close>.\<close>

definition normalize_v :: "vec3 \<Rightarrow> vec3 option" where
  "normalize_v v = (case fdiv 1 (sqrt (dot v v)) of None \<Rightarrow> None | Some k \<Rightarrow> Some (vmuls v k))"

section \<open>Single-precision arithmetic\<close>

text \<open>
  IEEE 754 binary32 values: the finite ones by the number they hold, the two infinities
  and NaN. The sign of zero is not modelled; no operation below is sensitive to it.
\<close>

datatype f32 = Val real | PInf | NInf | NaN

text \<open>Rounding to the nearest integer, ties to the even one.\<close>

definition rne :: "real \<Rightarrow> int" where
  "rne q =
     (let f = \<lfloor>q\<rfloor>; r = q - of_int f
      in if r < 1 / 2 then f else if 1 / 2 < r then f + 1 else if even f then f else f + 1)"

text \<open>The exponent of the binade of \<open>x\<close>, not below that of the subnormal numbers.\<close>

definition exponent32 :: "real \<Rightarrow> int" where
  "exponent32 x = max (-126) \<lfloor>log 2 \<bar>x\<bar>\<rfloor>"

text \<open>Rounding of an exact result to binary32, to nearest with ties to even: 24 bits of
  significand, and an infinity when the rounded magnitude reaches \<open>2 ^ 128\<close>.\<close>

definition round32 :: "real \<Rightarrow> f32" where
  "round32 x =
     (if x = 0 then Val 0
      else
        (let ulp = 2 powi (exponent32 x - 23);
             y = of_int (rne (x / ulp)) * ulp
         in if 2 ^ 128 \<le> \<bar>y\<bar> then (if 0 < x then PInf else NInf) else Val y))"

fun f_neg :: "f32 \<Rightarrow> f32" where
  "f_neg (Val x) = Val (- x)"
| "f_neg PInf = NInf"
| "f_neg NInf = PInf"
| "f_neg NaN = NaN"

fun f_add :: "f32 \<Rightarrow> f32 \<Rightarrow> f32" where
  "f_add (Val x) (Val y) = round32 (x + y)"
| "f_add (Val x) PInf = PInf"
| "f_add (Val x) NInf = NInf"
| "f_add PInf (Val y) = PInf"
| "f_add PInf PInf = PInf"
| "f_add PInf NInf = NaN"
| "f_add NInf (Val y) = NInf"
| "f_add NInf NInf = NInf"
| "f_add NInf PInf = NaN"
| "f_add NaN b = NaN"
| "f_add a NaN = NaN"

definition f_sub :: "f32 \<Rightarrow> f32 \<Rightarrow> f32" where
  "f_sub a b = f_add a (f_neg b)"

fun f_mul :: "f32 \<Rightarrow> f32 \<Rightarrow> f32" where
  "f_mul (Val x) (Val y) = round32 (x * y)"
| "f_mul (Val x) PInf = (if x = 0 then NaN else if 0 < x then PInf else NInf)"
| "f_mul (Val x) NInf = (if x = 0 then NaN else if 0 < x then NInf else PInf)"
| "f_mul PInf (Val y) = (if y = 0 then NaN else if 0 < y then PInf else NInf)"
| "f_mul NInf (Val y) = (if y = 0 then NaN else if 0 < y then NInf else PInf)"
| "f_mul PInf PInf = PInf"
| "f_mul PInf NInf = NInf"
| "f_mul NInf PInf = NInf"
| "f_mul NInf NInf = PInf"
| "f_mul NaN b = NaN"
| "f_mul a NaN = NaN"

fun f_sqrt :: "f32 \<Rightarrow> f32" where
  "f_sqrt (Val x) = (if x < 0 then NaN else round32 (sqrt x))"
| "f_sqrt PInf = PInf"
| "f_sqrt NInf = NaN"
| "f_sqrt NaN = NaN"

text \<open>The comparison \<open>x > 0.0f\<close>; it is false for a NaN.\<close>

fun f_positive :: "f32 \<Rightarrow> bool" where
  "f_positive (Val x) = (0 < x)"
| "f_positive PInf = True"
| "f_positive NInf = False"
| "f_positive NaN = False"

text \<open>Vectors of floats: the difference of two vectors rounds each component, and
  \<open>glm::dot\<close> adds the three rounded products from left to right.\<close>

datatype fvec3 = FVec3 f32 f32 f32

fun to_fvec3 :: "vec3 \<Rightarrow> fvec3" where
  "to_fvec3 (Vec3 a b c) = FVec3 (Val a) (Val b) (Val c)"

fun fvsub :: "fvec3 \<Rightarrow> fvec3 \<Rightarrow> fvec3" where
  "fvsub (FVec3 a b c) (FVec3 d e f) = FVec3 (f_sub a d) (f_sub b e) (f_sub c f)"

fun fdot :: "fvec3 \<Rightarrow> fvec3 \<Rightarrow> f32" where
  "fdot (FVec3 a b c) (FVec3 d e f) = f_add (f_add (f_mul a d) (f_mul b e)) (f_mul c f)"

text \<open>\<open>glm::length\<close> in binary32.\<close>

definition flength :: "fvec3 \<Rightarrow> f32" where
  "flength v = f_sqrt (fdot v v)"

section \<open>Quaternions\<close>

text \<open>Quaternions of glm, as far as the rotation drag uses them: \<open>glm::radians\<close>,
  \<open>glm::angleAxis\<close> and the product of a quaternion with a vector.\<close>

datatype quat = Quat (qw: real) (qx: real) (qy: real) (qz: real)

definition radians :: "real \<Rightarrow> real" where
  "radians degrees = degrees * (pi / 180)"

fun angleAxis :: "real \<Rightarrow> vec3 \<Rightarrow> quat" where
  "angleAxis angle (Vec3 a b c) =
     Quat (cos (angle * 0.5)) (a * sin (angle * 0.5)) (b * sin (angle * 0.5)) (c * sin (angle * 0.5))"

definition quat_rotate :: "quat \<Rightarrow> vec3 \<Rightarrow> vec3" where
  "quat_rotate q v =
     (let QuatVector = Vec3 (qx q) (qy q) (qz q);
          uv = cross QuatVector v;
          uuv = cross QuatVector uv
      in vadd v (vmuls (vadd (vmuls uv (qw q)) uuv) 2))"

section \<open>The scene and the global state\<close>

record Object =
  position :: vec3
  scale :: vec3
  color :: vec4
  isCube :: bool
  textureID :: nat

datatype TransformationMode = TRANSLATE | ROTATE | SCALE

text \<open>The globals of App.cpp that selection and dragging read and write.
  \<open>selectedObject\<close> and \<open>selectedAxis\<close> are C++ ints with -1 for "none".\<close>

record globals =
  objects :: "Object list"
  selectedObject :: int
  selectedAxis :: int
  isDragging :: bool
  initialClickPosition :: vec3
  currentMode :: TransformationMode
  movementSensitivity :: real

text \<open>The state when the render loop starts: the default cube in front of the camera
  (the camera is created at (0, 0, 3), so the cube is at (0, 0.5, 0)), nothing selected.\<close>

definition default_cube :: Object where
  "default_cube =
     \<lparr>position = vadd (Vec3 0 0 3) (Vec3 0 0.5 (-3)), scale = Vec3 1 1 1,
      color = Vec4 1 1 1 1, isCube = True, textureID = 0\<rparr>"

definition initial_globals :: globals where
  "initial_globals =
     \<lparr>objects = [default_cube], selectedObject = -1, selectedAxis = -1, isDragging = False,
      initialClickPosition = Vec3 0 0 0, currentMode = TRANSLATE, movementSensitivity = 4.0\<rparr>"

text \<open>Indexing \<open>objects\<close> outside its size and reading the axis direction that no
  branch has assigned are undefined behaviour in the program; the model returns a fault.
  So it does where a stored coordinate would become a NaN, which a real number cannot be.\<close>

datatype fault = OutOfRange | UninitialisedAxis | NotANumber

section \<open>Geometric tests\<close>

text \<open>\<open>RayIntersectsObject\<close> (lines 550-563), in binary32 arithmetic, every operation
  rounded. The local variable \<open>discriminant\<close> is a definition of its own.\<close>

definition discriminant :: "vec3 \<Rightarrow> vec3 \<Rightarrow> Object \<Rightarrow> f32" where
  "discriminant ray_origin ray_direction object =
     (let radius = f_mul (Val 0.5) (flength (to_fvec3 (scale object)));
          oc = fvsub (to_fvec3 ray_origin) (to_fvec3 (position object));
          a = fdot (to_fvec3 ray_direction) (to_fvec3 ray_direction);
          b = f_mul (Val 2.0) (fdot oc (to_fvec3 ray_direction));
          c = f_sub (fdot oc oc) (f_mul radius radius)
      in f_sub (f_mul b b) (f_mul (f_mul (Val 4.0) a) c))"

definition RayIntersectsObject :: "vec3 \<Rightarrow> vec3 \<Rightarrow> Object \<Rightarrow> bool" where
  "RayIntersectsObject ray_origin ray_direction object =
     (if f_positive (discriminant ray_origin ray_direction object) then True else False)"

text \<open>The discriminant of the ray/sphere quadratic as the specification words it, in exact
  arithmetic: the number that the program's \<open>discriminant\<close> approximates.\<close>

definition discriminant_exact :: "vec3 \<Rightarrow> vec3 \<Rightarrow> Object \<Rightarrow> real" where
  "discriminant_exact ray_origin ray_direction object =
     (let radius = 0.5 * length_v (scale object);
          oc = vsub ray_origin (position object);
          a = dot ray_direction ray_direction;
          b = 2.0 * dot oc ray_direction;
          c = dot oc oc - radius * radius
      in b * b - 4.0 * a * c)"

text \<open>\<open>DistanceFromRayToLineSegment\<close> (lines 869-890). The result \<open>None\<close> is the
  NaN that the program returns when one of its three divisions has a zero divisor: a NaN
  \<open>line_dir\<close> makes every later value a NaN, and the last division is then
  \<open>0 / 0\<close> or has a NaN operand.\<close>

definition DistanceFromRayToLineSegment :: "vec3 \<Rightarrow> vec3 \<Rightarrow> vec3 \<Rightarrow> vec3 \<Rightarrow> real option" where
  "DistanceFromRayToLineSegment ray_origin ray_direction line_start line_end =
     (let line_dir0 = vsub line_end line_start;
          line_length = length_v line_dir0
      in case normalize_v line_dir0 of
           None \<Rightarrow> None
         | Some line_dir \<Rightarrow>
             (let v = vsub ray_origin line_start;
                  projection = vadd line_start (smul (dot v line_dir) line_dir)
              in case fdiv (dot (vsub projection line_start) line_dir) line_length of
                   None \<Rightarrow> None
                 | Some t0 \<Rightarrow>
                     (let t = clamp t0 0.0 1.0;
                          closest_point = vadd line_start (vmuls (smul t line_dir) line_length);
                          perpendicular_dist = cross ray_direction (vsub closest_point ray_origin)
                      in fdiv (length_v perpendicular_dist) (length_v ray_direction))))"

text \<open>\<open>IsRayNearCircle\<close> (lines 1041-1052). With a zero divisor, \<open>t\<close> is an
  infinity or a NaN. Minus infinity takes the early \<open>return false\<close>; otherwise
  \<open>intersection\<close> has an infinite or NaN component, so has \<open>distanceToCenter\<close>,
  and the final comparison is false.\<close>

definition IsRayNearCircle :: "vec3 \<Rightarrow> vec3 \<Rightarrow> vec3 \<Rightarrow> vec3 \<Rightarrow> real \<Rightarrow> bool" where
  "IsRayNearCircle ray_origin ray_direction center normal radius =
     (case fdiv (dot (vsub center ray_origin) normal) (dot ray_direction normal) of
        None \<Rightarrow> False
      | Some t \<Rightarrow>
          if t < 0 then False
          else
            (let intersection = vadd ray_origin (smul t ray_direction);
                 distanceToCenter = length_v (vsub intersection center);
                 threshold = 0.1
             in \<bar>distanceToCenter - radius\<bar> < threshold))"

section \<open>The mouse button callback\<close>

text \<open>What the callback reads from its collaborators: ImGui's \<open>WantCaptureMouse\<close>,
  the camera position (the ray origin) and the result of \<open>ScreenToWorldRay\<close> at the
  cursor (the ray direction). The camera and the matrix code are not part of App.cpp, so
  the ray is an input of the model.\<close>

record input =
  WantCaptureMouse :: bool
  camera_Position :: vec3
  cursor_ray :: vec3

datatype button = LEFT | RIGHT | MIDDLE

datatype action = RELEASE | PRESS

definition gizmoClickRadius :: real where
  "gizmoClickRadius = 0.2"

text \<open>The comparison \<open>DistanceFromRayToLineSegment(...) < gizmoClickRadius\<close> of lines
  467, 473 and 479; a comparison with NaN is false.\<close>

definition arrow_clicked :: "vec3 \<Rightarrow> vec3 \<Rightarrow> vec3 \<Rightarrow> vec3 \<Rightarrow> bool" where
  "arrow_clicked ray_origin ray_direction line_start line_end =
     (case DistanceFromRayToLineSegment ray_origin ray_direction line_start line_end of
        None \<Rightarrow> False
      | Some distance \<Rightarrow> distance < gizmoClickRadius)"

text \<open>Lines 462-493: the gizmo test when an object is selected.\<close>

definition gizmo_click :: "vec3 \<Rightarrow> vec3 \<Rightarrow> globals \<Rightarrow> fault + globals" where
  "gizmo_click ray_origin ray_direction s =
     (if selectedObject s \<ge> 0 then
        (if nat (selectedObject s) < length (objects s) then
           (let obj = objects s ! nat (selectedObject s);
                s1 =
                  (if arrow_clicked ray_origin ray_direction (position obj)
                        (vadd (position obj) (Vec3 1 0 0))
                   then s\<lparr>selectedAxis := 0, isDragging := True\<rparr>
                   else if arrow_clicked ray_origin ray_direction (position obj)
                        (vadd (position obj) (Vec3 0 1 0))
                   then s\<lparr>selectedAxis := 1, isDragging := True\<rparr>
                   else if arrow_clicked ray_origin ray_direction (position obj)
                        (vadd (position obj) (Vec3 0 0 1))
                   then s\<lparr>selectedAxis := 2, isDragging := True\<rparr>
                   else s)
            in Inr (if isDragging s1
                    then s1\<lparr>initialClickPosition := vadd ray_origin ray_direction\<rparr>
                    else s1))
         else Inl OutOfRange)
      else Inr s)"

text \<open>Lines 497-504: the loop over the objects from index \<open>i\<close> on, after
  \<open>selectedObject = -1\<close>; the result is the new \<open>selectedObject\<close>.\<close>

fun pick_loop :: "vec3 \<Rightarrow> vec3 \<Rightarrow> Object list \<Rightarrow> nat \<Rightarrow> int" where
  "pick_loop ray_origin ray_direction [] i = -1"
| "pick_loop ray_origin ray_direction (ob # obs) i =
     (if RayIntersectsObject ray_origin ray_direction ob then int i
      else pick_loop ray_origin ray_direction obs (Suc i))"

text \<open>Lines 495-508.\<close>

definition object_click :: "vec3 \<Rightarrow> vec3 \<Rightarrow> globals \<Rightarrow> globals" where
  "object_click ray_origin ray_direction s =
     (if selectedObject s = -1 \<or> \<not> isDragging s
      then s\<lparr>selectedObject := pick_loop ray_origin ray_direction (objects s) 0\<rparr>
      else s)"

definition mouse_button_callback :: "input \<Rightarrow> button \<Rightarrow> action \<Rightarrow> globals \<Rightarrow> fault + globals" where
  "mouse_button_callback inp btn act s =
     (if btn = LEFT \<and> act = PRESS then
        (if WantCaptureMouse inp then Inr s
         else
           (case gizmo_click (camera_Position inp) (cursor_ray inp) (s\<lparr>selectedAxis := -1\<rparr>) of
              Inl e \<Rightarrow> Inl e
            | Inr s1 \<Rightarrow> Inr (object_click (camera_Position inp) (cursor_ray inp) s1)))
      else if btn = LEFT \<and> act = RELEASE then Inr (s\<lparr>isDragging := False, selectedAxis := -1\<rparr>)
      else Inr s)"

section \<open>The drag update of the render loop\<close>

text \<open>Lines 323-332: the axis direction; no branch assigns it for an axis above 2.\<close>

definition axisDirection :: "int \<Rightarrow> vec3 option" where
  "axisDirection axis =
     (if axis = 0 then Some (Vec3 1 0 0)
      else if axis = 1 then Some (Vec3 0 1 0)
      else if axis = 2 then Some (Vec3 0 0 1)
      else None)"

text \<open>Line 335.\<close>

definition movement_of :: "vec3 \<Rightarrow> vec3 \<Rightarrow> vec3 \<Rightarrow> real \<Rightarrow> vec3" where
  "movement_of currentRayPosition anchor axis sensitivity =
     vmuls (smul (dot (vsub currentRayPosition anchor) axis) axis) sensitivity"

text \<open>Lines 346-352: the new position in rotate mode. \<open>None\<close> is the NaN of
  normalising a zero axis.\<close>

definition rotate_position :: "vec3 \<Rightarrow> vec3 \<Rightarrow> real \<Rightarrow> vec3 \<Rightarrow> vec3 option" where
  "rotate_position movement axis sensitivity pos =
     (let angle = length_v movement * 5.0 * sensitivity
      in case normalize_v axis of
           None \<Rightarrow> None
         | Some rotationAxis \<Rightarrow>
             (let rotation = angleAxis (radians angle) rotationAxis;
                  objectCenter = pos
              in Some (vadd (quat_rotate rotation (vsub pos objectCenter)) objectCenter)))"

text \<open>Lines 338-367: the switch on the mode, applied to the selected object.
  \<open>None\<close> is a NaN position.\<close>

definition apply_mode :: "TransformationMode \<Rightarrow> vec3 \<Rightarrow> vec3 \<Rightarrow> real \<Rightarrow> Object \<Rightarrow> Object option" where
  "apply_mode mode movement axis sensitivity obj =
     (case mode of
        TRANSLATE \<Rightarrow> Some (obj\<lparr>position := vadd (position obj) movement\<rparr>)
      | ROTATE \<Rightarrow>
          (case rotate_position movement axis sensitivity (position obj) of
             None \<Rightarrow> None
           | Some newPosition \<Rightarrow> Some (obj\<lparr>position := newPosition\<rparr>))
      | SCALE \<Rightarrow>
          Some (obj\<lparr>scale := max_v (vadd (scale obj) movement) (Vec3 0.1 0.1 0.1)\<rparr>))"

text \<open>Lines 312-370, with the ray origin and direction of the frame as inputs.\<close>

definition drag_update :: "vec3 \<Rightarrow> vec3 \<Rightarrow> globals \<Rightarrow> fault + globals" where
  "drag_update ray_origin ray_direction s =
     (if isDragging s \<and> selectedObject s \<ge> 0 \<and> selectedAxis s \<ge> 0 then
        (let currentRayPosition = vadd ray_origin ray_direction
         in case axisDirection (selectedAxis s) of
              None \<Rightarrow> Inl UninitialisedAxis
            | Some axis \<Rightarrow>
                if nat (selectedObject s) < length (objects s) then
                  (let i = nat (selectedObject s);
                       movement = movement_of currentRayPosition (initialClickPosition s) axis
                                    (movementSensitivity s)
                   in case apply_mode (currentMode s) movement axis (movementSensitivity s)
                             (objects s ! i) of
                        None \<Rightarrow> Inl NotANumber
                      | Some obj' \<Rightarrow>
                          Inr (s\<lparr>objects := (objects s)[i := obj'],
                                  initialClickPosition := currentRayPosition\<rparr>))
                else Inl OutOfRange)
      else Inr s)"

section \<open>Gizmo code beside the callback\<close>

text \<open>\<open>HandleGizmoInteraction\<close> (lines 1005-1039). The function is defined and
  declared but no line of App.cpp calls it.\<close>

definition HandleGizmoInteraction :: "vec3 \<Rightarrow> vec3 \<Rightarrow> globals \<Rightarrow> fault + globals" where
  "HandleGizmoInteraction ray_origin ray_direction s =
     (if selectedObject s < 0 then Inr s
      else
        (case currentMode s of
           TRANSLATE \<Rightarrow> Inr s
         | ROTATE \<Rightarrow>
             (if nat (selectedObject s) < length (objects s) then
                (let center = position (objects s ! nat (selectedObject s))
                 in Inr (if IsRayNearCircle ray_origin ray_direction center (Vec3 1 0 0) 1.0
                         then s\<lparr>selectedAxis := 0, isDragging := True\<rparr>
                         else if IsRayNearCircle ray_origin ray_direction center (Vec3 0 1 0) 1.0
                         then s\<lparr>selectedAxis := 1, isDragging := True\<rparr>
                         else if IsRayNearCircle ray_origin ray_direction center (Vec3 0 0 1) 1.0
                         then s\<lparr>selectedAxis := 2, isDragging := True\<rparr>
                         else s))
              else Inl OutOfRange)
         | SCALE \<Rightarrow> Inr s))"

text \<open>\<open>RenderScalingGizmo\<close>, lines 974-976: where the three handle cubes are drawn.\<close>

definition xEnd :: "Object \<Rightarrow> vec3" where
  "xEnd obj = vadd (position obj) (Vec3 (1.0 * vx (scale obj)) 0.0 0.0)"

definition yEnd :: "Object \<Rightarrow> vec3" where
  "yEnd obj = vadd (position obj) (Vec3 0.0 (1.0 * vy (scale obj)) 0.0)"

definition zEnd :: "Object \<Rightarrow> vec3" where
  "zEnd obj = vadd (position obj) (Vec3 0.0 0.0 (1.0 * vz (scale obj)))"

section \<open>The panels of RenderImGui\<close>

text \<open>Lines 682-692: the three mode buttons. Lines 700-710: the two buttons that append
  an object. Lines 713-719: the list, whose entry \<open>i\<close> exists for \<open>i\<close> below the
  number of objects.\<close>

definition mode_button :: "TransformationMode \<Rightarrow> globals \<Rightarrow> globals" where
  "mode_button m s = s\<lparr>currentMode := m\<rparr>"

definition add_button :: "bool \<Rightarrow> globals \<Rightarrow> globals" where
  "add_button cube s =
     s\<lparr>objects := objects s @
          [\<lparr>position = Vec3 0.0 0.5 0.0, scale = Vec3 1 1 1, color = Vec4 1 1 1 1,
            isCube = cube, textureID = 0\<rparr>]\<rparr>"

definition list_select :: "nat \<Rightarrow> globals \<Rightarrow> globals" where
  "list_select i s = (if i < length (objects s) then s\<lparr>selectedObject := int i\<rparr> else s)"

section \<open>Runs of the program\<close>

text \<open>The operations that change the globals, as events: a call of the mouse button
  callback, the drag update of one frame with that frame's ray, and the clicks on the panels.\<close>

datatype event =
    MouseButton input button action
  | Frame vec3 vec3
  | ListSelect nat
  | AddButton bool
  | ModeButton TransformationMode

fun step :: "event \<Rightarrow> globals \<Rightarrow> fault + globals" where
  "step (MouseButton inp btn act) s = mouse_button_callback inp btn act s"
| "step (Frame ray_origin ray_direction) s = drag_update ray_origin ray_direction s"
| "step (ListSelect i) s = Inr (list_select i s)"
| "step (AddButton cube) s = Inr (add_button cube s)"
| "step (ModeButton m) s = Inr (mode_button m s)"

fun run :: "event list \<Rightarrow> globals \<Rightarrow> fault + globals" where
  "run [] s = Inr s"
| "run (e # es) s = (case step e s of Inl f \<Rightarrow> Inl f | Inr s' \<Rightarrow> run es s')"

text \<open>A run in which no press of the left button comes while that button is down:
  \<open>down\<close> is the state of the physical button before the events.\<close>

fun buttons_alternate :: "bool \<Rightarrow> event list \<Rightarrow> bool" where
  "buttons_alternate down [] = True"
| "buttons_alternate down (MouseButton inp btn act # es) =
     (if btn = LEFT \<and> act = PRESS then \<not> down \<and> buttons_alternate True es
      else if btn = LEFT \<and> act = RELEASE then buttons_alternate False es
      else buttons_alternate down es)"
| "buttons_alternate down (Frame ray_origin ray_direction # es) = buttons_alternate down es"
| "buttons_alternate down (ListSelect i # es) = buttons_alternate down es"
| "buttons_alternate down (AddButton cube # es) = buttons_alternate down es"
| "buttons_alternate down (ModeButton m # es) = buttons_alternate down es"

text \<open>The invariant of the drag state: while dragging, an axis is selected and the selected
  object is an index into the objects.\<close>

definition drag_invariant :: "globals \<Rightarrow> bool" where
  "drag_invariant s =
     (isDragging s \<longrightarrow>
        (selectedAxis s = 0 \<or> selectedAxis s = 1 \<or> selectedAxis s = 2)
        \<and> 0 \<le> selectedObject s \<and> nat (selectedObject s) < length (objects s))"

text \<open>The invariant that a run maintains, with the state of the physical left button:
  the selection is -1 or an index into the objects, the drag invariant holds, and nothing
  is being dragged while the button is up.\<close>

definition well_formed :: "bool \<Rightarrow> globals \<Rightarrow> bool" where
  "well_formed down s \<longleftrightarrow>
     (selectedObject s = -1 \<or> (0 \<le> selectedObject s \<and> nat (selectedObject s) < length (objects s)))
     \<and> drag_invariant s
     \<and> (\<not> down \<longrightarrow> \<not> isDragging s)"

text \<open>What holds of the selection in every run, whatever the order of presses and
  releases: the selected object is -1 or an index into the objects, the axis is -1, 0, 1
  or 2, and an object is selected while the drag flag is set.\<close>

definition selection_valid :: "globals \<Rightarrow> bool" where
  "selection_valid s \<longleftrightarrow>
     (selectedObject s = -1 \<or> (0 \<le> selectedObject s \<and> nat (selectedObject s) < length (objects s)))
     \<and> (selectedAxis s = -1 \<or> selectedAxis s = 0 \<or> selectedAxis s = 1 \<or> selectedAxis s = 2)
     \<and> (isDragging s \<longrightarrow> 0 \<le> selectedObject s)"

section \<open>Facts about the single-precision arithmetic\<close>

lemma rne_near:
  assumes "\<bar>q - of_int n\<bar> < 1 / 2"
  shows "rne q = n"
proof -
  have lo: "of_int n - 1 / 2 < q" and hi: "q < of_int n + 1 / 2"
    using assms by linarith+
  show ?thesis
  proof (cases "of_int n \<le> q")
    case True
    then have f: "\<lfloor>q\<rfloor> = n" using hi by (simp add: floor_eq_iff)
    have "q - of_int n < 1 / 2" using hi by linarith
    then show ?thesis using f by (simp add: rne_def Let_def)
  next
    case False
    then have f: "\<lfloor>q\<rfloor> = n - 1" using lo by (simp add: floor_eq_iff)
    have "1 / 2 < q - of_int (n - 1)" using lo by simp
    then show ?thesis using f by (simp add: rne_def Let_def)
  qed
qed

lemma rne_of_int: "rne (of_int n) = n"
  by (rule rne_near) simp

lemma floor_log2_binade:
  assumes "2 powi k \<le> \<bar>x\<bar>" "\<bar>x\<bar> < 2 powi (k + 1)"
  shows "\<lfloor>log 2 \<bar>x\<bar>\<rfloor> = k"
proof -
  have "(0::real) < 2 powi k" by simp
  then have pos: "0 < \<bar>x\<bar>" using assms(1) by linarith
  have a: "(2::real) powr (of_int k) = 2 powi k"
    using powr_real_of_int'[of 2 k] by simp
  have b: "(2::real) powr (of_int (k + 1)) = 2 powi (k + 1)"
    using powr_real_of_int'[of 2 "k + 1"] by simp
  have "2 powr (of_int k) \<le> \<bar>x\<bar> \<and> \<bar>x\<bar> < 2 powr (of_int (k + 1))"
    using assms unfolding a b by simp
  then show ?thesis using floor_log_eq_powr_iff[OF pos, of 2 k] by simp
qed

lemma round32_nearest:
  assumes "2 powi k \<le> \<bar>x\<bar>" "\<bar>x\<bar> < 2 powi (k + 1)" "-126 \<le> k"
    and "\<bar>x / 2 powi (k - 23) - of_int n\<bar> < 1 / 2"
    and "\<bar>of_int n * 2 powi (k - 23)\<bar> < (2::real) ^ 128"
  shows "round32 x = Val (of_int n * 2 powi (k - 23))"
proof -
  have "(0::real) < 2 powi k" by simp
  then have "0 < \<bar>x\<bar>" using assms(1) by linarith
  then have nz: "x \<noteq> 0" by simp
  have e: "exponent32 x = k"
    using floor_log2_binade[OF assms(1,2)] assms(3) by (simp add: exponent32_def)
  have r: "rne (x / 2 powi (k - 23)) = n" using assms(4) by (rule rne_near)
  show ?thesis using nz assms(5) by (simp add: round32_def e r Let_def)
qed

lemma round32_exact:
  assumes "x = of_int m * 2 powi e" "\<bar>m\<bar> < 2 ^ 24" "-149 \<le> e" "e \<le> 104"
  shows "round32 x = Val x"
proof (cases "x = 0")
  case True
  then show ?thesis by (simp add: round32_def)
next
  case False
  then have m0: "m \<noteq> 0" using assms(1) by auto
  define E where "E = exponent32 x"
  have absx: "\<bar>x\<bar> = of_int \<bar>m\<bar> * 2 powi e"
    using assms(1) by (simp add: abs_mult)
  have "of_int \<bar>m\<bar> < (2::real) ^ 24" using assms(2) by (metis of_int_less_iff of_int_numeral of_int_power)
  then have "\<bar>x\<bar> < 2 ^ 24 * 2 powi e" unfolding absx by simp
  also have "\<dots> = 2 powi (24 + e)" by (simp add: power_int_add)
  finally have lt: "\<bar>x\<bar> < 2 powi (24 + e)" .
  have pos: "0 < \<bar>x\<bar>" using False by simp
  have "log 2 \<bar>x\<bar> < of_int (24 + e)"
    using lt pos powr_real_of_int'[of 2 "24 + e"] by (simp add: log_less_iff)
  then have "\<lfloor>log 2 \<bar>x\<bar>\<rfloor> < 24 + e" by (simp add: floor_less_iff)
  then have Ele: "E - 23 \<le> e" using assms(3) by (simp add: E_def exponent32_def)
  define j where "j = nat (e - (E - 23))"
  have je: "e = (E - 23) + int j" using Ele by (simp add: j_def)
  have q: "x / 2 powi (E - 23) = of_int (m * 2 ^ j)"
    unfolding assms(1) je by (simp add: power_int_add)
  have r: "rne (x / 2 powi (E - 23)) = m * 2 ^ j" unfolding q by (rule rne_of_int)
  have y: "of_int (m * 2 ^ j) * 2 powi (E - 23) = x"
    using q by (simp add: field_simps)
  have "2 powi (24 + e) \<le> (2::real) powi 128" using assms(4) by (intro power_int_increasing) simp_all
  then have "\<bar>x\<bar> < 2 ^ 128" using lt by simp
  then show ?thesis using False r y by (simp add: round32_def Let_def flip: E_def)
qed


lemma round32_zero: "round32 0 = Val 0"
  by (simp add: round32_def)


lemma round32_exact_fraction:
  assumes "x * 2 ^ j = of_int \<lfloor>x * 2 ^ j\<rfloor>" "\<bar>x * 2 ^ j\<bar> < 2 ^ 24" "j \<le> 149"
  shows "round32 x = Val x"
proof (rule round32_exact[of x "\<lfloor>x * 2 ^ j\<rfloor>" "- int j"])
  show "x = of_int \<lfloor>x * 2 ^ j\<rfloor> * 2 powi (- int j)"
    using assms(1) by (simp add: power_int_minus field_simps)
  have "\<bar>of_int \<lfloor>x * 2 ^ j\<rfloor>\<bar> < (2::real) ^ 24" using assms(1,2) by simp
  then show "\<bar>\<lfloor>x * 2 ^ j\<rfloor>\<bar> < 2 ^ 24"
    by (metis of_int_abs of_int_less_iff of_int_numeral of_int_power)
qed (use assms(3) in simp_all)

lemmas round32_quarters = round32_exact_fraction [where j = 2]


lemma sqrt3_bounds: "14529495 - 1 / 2 < sqrt 3 * 2 ^ 23" "sqrt 3 * 2 ^ 23 < 14529495 + 1 / 2"
proof -
  have "((14529495 - 1 / 2) / 2 ^ 23)\<^sup>2 < (3::real)" by (simp add: power2_eq_square)
  then have "(14529495 - 1 / 2) / 2 ^ 23 < sqrt 3" by (rule real_less_rsqrt)
  then show "14529495 - 1 / 2 < sqrt 3 * 2 ^ 23" by (simp add: field_simps)
  have "(3::real) < ((14529495 + 1 / 2) / 2 ^ 23)\<^sup>2" by (simp add: power2_eq_square)
  then have "sqrt 3 < (14529495 + 1 / 2) / 2 ^ 23" by (intro real_less_lsqrt) simp_all
  then show "sqrt 3 * 2 ^ 23 < 14529495 + 1 / 2" by (simp add: field_simps)
qed

lemma round32_sqrt3: "round32 (sqrt 3) = Val (14529495 / 2 ^ 23)"
proof -
  have one: "1 \<le> sqrt 3" by simp
  have two: "sqrt 3 < 2" by (intro real_less_lsqrt) simp_all
  have "round32 (sqrt 3) = Val (of_int 14529495 * 2 powi (0 - 23))"
  proof (rule round32_nearest)
    show "2 powi 0 \<le> \<bar>sqrt 3\<bar>" using one by simp
    show "\<bar>sqrt 3\<bar> < 2 powi (0 + 1)" using two by simp
    have "sqrt 3 / 2 powi (0 - 23) = sqrt 3 * 2 ^ 23"
      by (simp add: power_int_minus field_simps)
    then show "\<bar>sqrt 3 / 2 powi (0 - 23) - of_int 14529495\<bar> < 1 / 2"
      using sqrt3_bounds by (simp only: of_int_numeral)
  qed (simp_all add: power_int_minus)
  then show ?thesis by (simp add: power_int_minus field_simps)
qed

section \<open>Facts about the vector arithmetic\<close>

lemma dot_self_nonneg: "0 \<le> dot v v" by (cases v) simp
lemma dot_self_zero: "dot v v = 0 \<longleftrightarrow> v = Vec3 0 0 0"
  by (cases v) (simp add: sum_squares_eq_zero_iff add_nonneg_eq_0_iff)

lemma vmuls_one: "vmuls v 1 = v" by (cases v) simp
lemma vsub_vadd_same: "vsub (vadd p e) p = e" by (cases p; cases e) simp
lemma vsub_self: "vsub p p = Vec3 0 0 0" by (cases p) simp
lemma vadd_zero_left: "vadd (Vec3 0 0 0) p = p" by (cases p) simp
lemma cross_zero_right: "cross v (Vec3 0 0 0) = Vec3 0 0 0" by (cases v) simp
lemma dot_smul_left: "dot (smul k a) b = k * dot a b" by (cases a; cases b) (simp add: algebra_simps)

lemma normalize_v_unit: "dot e e = 1 \<Longrightarrow> normalize_v e = Some e"
  by (simp add: normalize_v_def fdiv_def vmuls_one)

lemma axisDirection_unit: "axisDirection a = Some e \<Longrightarrow> dot e e = 1"
  by (auto simp: axisDirection_def split: if_splits)

lemma axisDirection_Some_iff: "(\<exists>e. axisDirection a = Some e) \<longleftrightarrow> a = 0 \<or> a = 1 \<or> a = 2"
  by (auto simp: axisDirection_def)

lemma quat_rotate_zero: "quat_rotate q (Vec3 0 0 0) = Vec3 0 0 0"
  by (simp add: quat_rotate_def Let_def cross_zero_right)

lemma rotate_position_fixed:
  "dot axis axis = 1 \<Longrightarrow> rotate_position movement axis sensitivity pos = Some pos"
  by (simp add: rotate_position_def Let_def normalize_v_unit vsub_self quat_rotate_zero vadd_zero_left)

section \<open>The ray/sphere test\<close>






lemma RayIntersectsObject_iff:
  "RayIntersectsObject p d ob \<longleftrightarrow> f_positive (discriminant p d ob)"
  by (simp add: RayIntersectsObject_def)


lemma radius_squared_unit:
  "f_mul (f_mul (Val (1 / 2)) (flength (FVec3 (Val 1) (Val 1) (Val 1))))
         (f_mul (Val (1 / 2)) (flength (FVec3 (Val 1) (Val 1) (Val 1)))) = Val (3 / 4)"
proof -
  have len: "flength (FVec3 (Val 1) (Val 1) (Val 1)) = Val (14529495 / 2 ^ 23)"
    by (simp add: flength_def round32_quarters round32_sqrt3)
  have half: "f_mul (Val (1 / 2)) (Val (14529495 / 2 ^ 23)) = Val (14529495 / 2 ^ 24)"
    by (simp add: round32_exact_fraction[where j = 24])
  have "round32 (14529495 / 2 ^ 24 * (14529495 / 2 ^ 24)) = Val (of_int 12582912 * 2 powi (- 1 - 23))"
    by (rule round32_nearest) (simp_all add: power_int_minus abs_less_iff)
  then have "f_mul (Val (14529495 / 2 ^ 24)) (Val (14529495 / 2 ^ 24)) = Val (3 / 4)"
    by (simp add: power_int_minus)
  then show ?thesis by (simp only: len half)
qed

lemma discriminant_with_radius:
  assumes "f_mul (f_mul (Val 0.5) (flength (to_fvec3 (scale ob))))
                 (f_mul (Val 0.5) (flength (to_fvec3 (scale ob)))) = rr"
  shows "discriminant p d ob =
           f_sub (f_mul (f_mul (Val 2) (fdot (fvsub (to_fvec3 p) (to_fvec3 (position ob))) (to_fvec3 d)))
                        (f_mul (Val 2) (fdot (fvsub (to_fvec3 p) (to_fvec3 (position ob))) (to_fvec3 d))))
                 (f_mul (f_mul (Val 4) (fdot (to_fvec3 d) (to_fvec3 d)))
                        (f_sub (fdot (fvsub (to_fvec3 p) (to_fvec3 (position ob)))
                                     (fvsub (to_fvec3 p) (to_fvec3 (position ob)))) rr))"
  using assms by (simp add: discriminant_def Let_def)

lemmas discriminant_unit = discriminant_with_radius [where rr = "Val (3 / 4)"]






lemma f_mul_zero_right: "f_mul u (Val 0) = Val 0 \<or> f_mul u (Val 0) = NaN"
  by (cases u) (simp_all add: round32_zero)

lemma f_mul_zero_left: "f_mul (Val 0) u = Val 0 \<or> f_mul (Val 0) u = NaN"
  by (cases u) (simp_all add: round32_zero)

lemma f_add_zero_or_NaN:
  "a = Val 0 \<or> a = NaN \<Longrightarrow> b = Val 0 \<or> b = NaN \<Longrightarrow> f_add a b = Val 0 \<or> f_add a b = NaN"
  by (auto simp: round32_zero)

lemma f_mul_zero_or_NaN:
  "a = Val 0 \<or> a = NaN \<Longrightarrow> f_mul a b = Val 0 \<or> f_mul a b = NaN"
  using f_mul_zero_left[of b] by auto

lemma f_mul_NaN_right: "f_mul a NaN = NaN"
  by (cases a) simp_all

lemma f_mul_zero_or_NaN_right:
  "b = Val 0 \<or> b = NaN \<Longrightarrow> f_mul a b = Val 0 \<or> f_mul a b = NaN"
  using f_mul_zero_right[of a] by (auto simp: f_mul_NaN_right)

lemma f_sub_zero_or_NaN:
  "a = Val 0 \<or> a = NaN \<Longrightarrow> b = Val 0 \<or> b = NaN \<Longrightarrow> f_sub a b = Val 0 \<or> f_sub a b = NaN"
  by (auto simp: f_sub_def round32_zero)

lemma fdot_zero_right:
  "fdot v (FVec3 (Val 0) (Val 0) (Val 0)) = Val 0 \<or> fdot v (FVec3 (Val 0) (Val 0) (Val 0)) = NaN"
proof (cases v)
  case (FVec3 a b c)
  show ?thesis unfolding FVec3 fdot.simps
    by (intro f_add_zero_or_NaN f_mul_zero_right)
qed

lemma discriminant_zero_direction:
  "discriminant p (Vec3 0 0 0) ob = Val 0 \<or> discriminant p (Vec3 0 0 0) ob = NaN"
proof -
  let ?z = "FVec3 (Val 0) (Val 0) (Val 0)"
  let ?oc = "fvsub (to_fvec3 p) (to_fvec3 (position ob))"
  let ?rr = "f_mul (f_mul (Val 0.5) (flength (to_fvec3 (scale ob))))
                   (f_mul (Val 0.5) (flength (to_fvec3 (scale ob))))"
  have a4: "f_mul (Val 4) (fdot ?z ?z) = Val 0" by (simp add: round32_zero)
  have b: "f_mul (Val 2) (fdot ?oc ?z) = Val 0 \<or> f_mul (Val 2) (fdot ?oc ?z) = NaN"
    using fdot_zero_right[of ?oc] by (rule f_mul_zero_or_NaN_right)
  then have bb: "f_mul (f_mul (Val 2) (fdot ?oc ?z)) (f_mul (Val 2) (fdot ?oc ?z)) = Val 0
               \<or> f_mul (f_mul (Val 2) (fdot ?oc ?z)) (f_mul (Val 2) (fdot ?oc ?z)) = NaN"
    by (rule f_mul_zero_or_NaN)
  have ac: "f_mul (f_mul (Val 4) (fdot ?z ?z)) (f_sub (fdot ?oc ?oc) ?rr) = Val 0
          \<or> f_mul (f_mul (Val 4) (fdot ?z ?z)) (f_sub (fdot ?oc ?oc) ?rr) = NaN"
    unfolding a4 by (rule f_mul_zero_left)
  have "discriminant p (Vec3 0 0 0) ob =
          f_sub (f_mul (f_mul (Val 2) (fdot ?oc ?z)) (f_mul (Val 2) (fdot ?oc ?z)))
                (f_mul (f_mul (Val 4) (fdot ?z ?z)) (f_sub (fdot ?oc ?oc) ?rr))"
    by (simp add: discriminant_def Let_def)
  then show ?thesis using f_sub_zero_or_NaN[OF bb ac] by simp
qed

lemma RayIntersectsObject_zero_direction: "\<not> RayIntersectsObject p (Vec3 0 0 0) ob"
  using discriminant_zero_direction[of p ob] by (auto simp: RayIntersectsObject_iff)




section \<open>The drag update\<close>

lemma drag_update_active:
  assumes "isDragging s" "0 \<le> selectedObject s" "nat (selectedObject s) < length (objects s)"
    and "axisDirection (selectedAxis s) = Some axis"
  shows "drag_update ray_origin ray_direction s =
     (case apply_mode (currentMode s)
             (movement_of (vadd ray_origin ray_direction) (initialClickPosition s) axis (movementSensitivity s))
             axis (movementSensitivity s) (objects s ! nat (selectedObject s)) of
        None \<Rightarrow> Inl NotANumber
      | Some obj' \<Rightarrow>
          Inr (s\<lparr>objects := (objects s)[nat (selectedObject s) := obj'],
                  initialClickPosition := vadd ray_origin ray_direction\<rparr>))"
proof -
  have "0 \<le> selectedAxis s" using assms(4) by (auto simp: axisDirection_def split: if_splits)
  then show ?thesis using assms by (simp add: drag_update_def Let_def)
qed

text \<open>
  Claim C3. While dragging in translate mode (a drag is active, an object and one of the
  axes X, Y, Z are selected), one drag update adds to the position of the selected object
  dot(currentRayPoint - anchorWorldPoint, axisUnitVector) * axisUnitVector * sensitivityFactor,
  where currentRayPoint is rayOrigin + rayDirection, and sets the anchor to currentRayPoint.
  The sensitivity is 4.0 in the initial state. With a movement scalar of 2.0 along X and
  sensitivity 4.0 the position grows by (8, 0, 0).
\<close>

theorem translate_drag_delta:
  assumes "isDragging s" and "0 \<le> selectedObject s"
    and "nat (selectedObject s) < length (objects s)"
    and "axisDirection (selectedAxis s) = Some axisUnitVector"
    and "currentMode s = TRANSLATE"
  shows "drag_update rayOrigin rayDirection s =
           Inr (s\<lparr>objects := (objects s)[nat (selectedObject s) :=
                       (objects s ! nat (selectedObject s))
                         \<lparr>position :=
                            vadd (position (objects s ! nat (selectedObject s)))
                              (vmuls (smul (dot (vsub (vadd rayOrigin rayDirection) (initialClickPosition s))
                                               axisUnitVector) axisUnitVector)
                                     (movementSensitivity s))\<rparr>],
                   initialClickPosition := vadd rayOrigin rayDirection\<rparr>)
         \<and> movementSensitivity initial_globals = 4.0
         \<and> (dot (vsub (vadd rayOrigin rayDirection) (initialClickPosition s)) axisUnitVector = 2.0
              \<and> selectedAxis s = 0 \<and> movementSensitivity s = 4.0
            \<longrightarrow> (\<exists>s'. drag_update rayOrigin rayDirection s = Inr s'
                   \<and> position (objects s' ! nat (selectedObject s))
                       = vadd (position (objects s ! nat (selectedObject s))) (Vec3 8 0 0)
                   \<and> initialClickPosition s' = vadd rayOrigin rayDirection))"
proof -
  have upd: "drag_update rayOrigin rayDirection s =
           Inr (s\<lparr>objects := (objects s)[nat (selectedObject s) :=
                       (objects s ! nat (selectedObject s))
                         \<lparr>position :=
                            vadd (position (objects s ! nat (selectedObject s)))
                              (vmuls (smul (dot (vsub (vadd rayOrigin rayDirection) (initialClickPosition s))
                                               axisUnitVector) axisUnitVector)
                                     (movementSensitivity s))\<rparr>],
                   initialClickPosition := vadd rayOrigin rayDirection\<rparr>)"
    using assms by (simp add: drag_update_active apply_mode_def movement_of_def)
  have sens: "movementSensitivity initial_globals = 4.0" by (simp add: initial_globals_def)
  have ex: "\<exists>s'. drag_update rayOrigin rayDirection s = Inr s'
                   \<and> position (objects s' ! nat (selectedObject s))
                       = vadd (position (objects s ! nat (selectedObject s))) (Vec3 8 0 0)
                   \<and> initialClickPosition s' = vadd rayOrigin rayDirection"
    if h: "dot (vsub (vadd rayOrigin rayDirection) (initialClickPosition s)) axisUnitVector = 2.0
              \<and> selectedAxis s = 0 \<and> movementSensitivity s = 4.0"
  proof -
    have "axisUnitVector = Vec3 1 0 0" using assms(4) h by (simp add: axisDirection_def)
    then show ?thesis using upd h assms(3) by simp
  qed
  show ?thesis using upd sens ex by blast
qed


text \<open>
  Scenario C as the witness: the unit cube at the origin dragged along X, the anchor at
  (-2, 0, 2) and the ray from (0, 0, 3) towards (0, 0, -1).
\<close>

theorem translate_drag_delta_witness:
  "drag_update (Vec3 0 0 3) (Vec3 0 0 (-1))
      \<lparr>objects = [\<lparr>position = Vec3 0 0 0, scale = Vec3 1 1 1, color = Vec4 1 1 1 1, isCube = True, textureID = 0\<rparr>], selectedObject = 0, selectedAxis = 0, isDragging = True,
        initialClickPosition = Vec3 (-2) 0 2, currentMode = TRANSLATE, movementSensitivity = 4.0\<rparr>
   = Inr \<lparr>objects = [\<lparr>position = Vec3 8 0 0, scale = Vec3 1 1 1, color = Vec4 1 1 1 1, isCube = True, textureID = 0\<rparr>], selectedObject = 0, selectedAxis = 0, isDragging = True,
        initialClickPosition = Vec3 0 0 2, currentMode = TRANSLATE, movementSensitivity = 4.0\<rparr>"
proof -
  let ?s = "\<lparr>objects = [\<lparr>position = Vec3 0 0 0, scale = Vec3 1 1 1, color = Vec4 1 1 1 1, isCube = True, textureID = 0\<rparr>], selectedObject = 0, selectedAxis = 0, isDragging = True,
        initialClickPosition = Vec3 (-2) 0 2, currentMode = TRANSLATE, movementSensitivity = 4.0\<rparr>"
  have h: "isDragging ?s" "0 \<le> selectedObject ?s" "nat (selectedObject ?s) < length (objects ?s)"
    "axisDirection (selectedAxis ?s) = Some (Vec3 1 0 0)" "currentMode ?s = TRANSLATE"
    by (simp_all add: axisDirection_def)
  from translate_drag_delta [OF h, of "Vec3 0 0 3" "Vec3 0 0 (-1)"] show ?thesis by simp
qed

text \<open>
  The input that falsifies claim C4 as stated: an object whose scale is (0.05, 1, 1),
  dragged along Z with movement (0, 0, 3). The movement of the X component is zero, and
  the X component changes from 0.05 to 0.1.
\<close>

theorem scale_drag_small_component_counterexample:
  "movement_of (vadd (Vec3 0 0 3) (Vec3 0 0 (-1))) (Vec3 0 0 1.25) (Vec3 0 0 1) 4.0 = Vec3 0 0 3
   \<and> drag_update (Vec3 0 0 3) (Vec3 0 0 (-1))
      \<lparr>objects = [\<lparr>position = Vec3 0 0 0, scale = Vec3 0.05 1 1, color = Vec4 1 1 1 1, isCube = True, textureID = 0\<rparr>], selectedObject = 0, selectedAxis = 2, isDragging = True,
        initialClickPosition = Vec3 0 0 1.25, currentMode = SCALE, movementSensitivity = 4.0\<rparr>
   = Inr \<lparr>objects = [\<lparr>position = Vec3 0 0 0, scale = Vec3 0.1 1 4, color = Vec4 1 1 1 1, isCube = True, textureID = 0\<rparr>], selectedObject = 0, selectedAxis = 2, isDragging = True,
        initialClickPosition = Vec3 0 0 2, currentMode = SCALE, movementSensitivity = 4.0\<rparr>"
  by (simp add: drag_update_def axisDirection_def apply_mode_def movement_of_def Let_def)

text \<open>
  Claim C4, amended. While dragging in scale mode, one drag update replaces the scale of
  the selected object by the componentwise maximum of scale + movementVector and
  (0.1, 0.1, 0.1): every component is at least 0.1, none is cut from above, and a
  component whose movement is zero is unchanged when it was at least 0.1 already.
  Movement (-5, 0, 0) on scale (1, 1, 1) gives scale (0.1, 1, 1).
\<close>

theorem scale_drag_clamped:
  assumes "isDragging s" and "0 \<le> selectedObject s"
    and "nat (selectedObject s) < length (objects s)"
    and "axisDirection (selectedAxis s) = Some axis"
    and "currentMode s = SCALE"
    and "movementVector = movement_of (vadd rayOrigin rayDirection) (initialClickPosition s) axis
                            (movementSensitivity s)"
    and "obj = objects s ! nat (selectedObject s)"
    and "newScale = max_v (vadd (scale obj) movementVector) (Vec3 0.1 0.1 0.1)"
  shows "drag_update rayOrigin rayDirection s =
           Inr (s\<lparr>objects := (objects s)[nat (selectedObject s) := obj\<lparr>scale := newScale\<rparr>],
                   initialClickPosition := vadd rayOrigin rayDirection\<rparr>)
         \<and> 0.1 \<le> vx newScale \<and> 0.1 \<le> vy newScale \<and> 0.1 \<le> vz newScale
         \<and> vx (vadd (scale obj) movementVector) \<le> vx newScale
         \<and> vy (vadd (scale obj) movementVector) \<le> vy newScale
         \<and> vz (vadd (scale obj) movementVector) \<le> vz newScale
         \<and> (vx movementVector = 0 \<and> 0.1 \<le> vx (scale obj) \<longrightarrow> vx newScale = vx (scale obj))
         \<and> (vy movementVector = 0 \<and> 0.1 \<le> vy (scale obj) \<longrightarrow> vy newScale = vy (scale obj))
         \<and> (vz movementVector = 0 \<and> 0.1 \<le> vz (scale obj) \<longrightarrow> vz newScale = vz (scale obj))
         \<and> (movementVector = Vec3 (-5) 0 0 \<and> scale obj = Vec3 1 1 1 \<longrightarrow> newScale = Vec3 0.1 1 1)"
proof -
  have upd: "drag_update rayOrigin rayDirection s =
           Inr (s\<lparr>objects := (objects s)[nat (selectedObject s) := obj\<lparr>scale := newScale\<rparr>],
                   initialClickPosition := vadd rayOrigin rayDirection\<rparr>)"
    using assms by (simp add: drag_update_active apply_mode_def)
  obtain a b c where sc: "scale obj = Vec3 a b c" by (cases "scale obj")
  obtain u v w where mv: "movementVector = Vec3 u v w" by (cases movementVector)
  have ns: "newScale = Vec3 (max (a + u) 0.1) (max (b + v) 0.1) (max (c + w) 0.1)"
    using assms(8) sc mv by simp
  show ?thesis
    unfolding ns sc mv using upd[unfolded ns sc mv] by simp
qed

text \<open>
  Scenario D as the witness: movement (-5, 0, 0) on the unit cube.
\<close>

theorem scale_drag_clamped_witness:
  "movement_of (vadd (Vec3 0 0 3) (Vec3 0 0 (-1))) (Vec3 1.25 0 2) (Vec3 1 0 0) 4.0 = Vec3 (-5) 0 0
   \<and> drag_update (Vec3 0 0 3) (Vec3 0 0 (-1))
      \<lparr>objects = [\<lparr>position = Vec3 0 0 0, scale = Vec3 1 1 1, color = Vec4 1 1 1 1, isCube = True, textureID = 0\<rparr>], selectedObject = 0, selectedAxis = 0, isDragging = True,
        initialClickPosition = Vec3 1.25 0 2, currentMode = SCALE, movementSensitivity = 4.0\<rparr>
   = Inr \<lparr>objects = [\<lparr>position = Vec3 0 0 0, scale = Vec3 0.1 1 1, color = Vec4 1 1 1 1, isCube = True, textureID = 0\<rparr>], selectedObject = 0, selectedAxis = 0, isDragging = True,
        initialClickPosition = Vec3 0 0 2, currentMode = SCALE, movementSensitivity = 4.0\<rparr>"
proof -
  let ?s = "\<lparr>objects = [\<lparr>position = Vec3 0 0 0, scale = Vec3 1 1 1, color = Vec4 1 1 1 1, isCube = True, textureID = 0\<rparr>], selectedObject = 0, selectedAxis = 0, isDragging = True,
        initialClickPosition = Vec3 1.25 0 2, currentMode = SCALE, movementSensitivity = 4.0\<rparr>"
  let ?obj = "\<lparr>position = Vec3 0 0 0, scale = Vec3 1 1 1, color = Vec4 1 1 1 1, isCube = True, textureID = 0\<rparr>"
  have m: "movement_of (vadd (Vec3 0 0 3) (Vec3 0 0 (-1))) (Vec3 1.25 0 2) (Vec3 1 0 0) 4.0 = Vec3 (-5) 0 0"
    by (simp add: movement_of_def)
  have h: "isDragging ?s" "0 \<le> selectedObject ?s" "nat (selectedObject ?s) < length (objects ?s)"
    "axisDirection (selectedAxis ?s) = Some (Vec3 1 0 0)" "currentMode ?s = SCALE"
    "Vec3 (-5) 0 0 = movement_of (vadd (Vec3 0 0 3) (Vec3 0 0 (-1))) (initialClickPosition ?s) (Vec3 1 0 0) (movementSensitivity ?s)"
    "?obj = objects ?s ! nat (selectedObject ?s)"
    "Vec3 0.1 1 1 = max_v (vadd (scale ?obj) (Vec3 (-5) 0 0)) (Vec3 0.1 0.1 0.1)"
    by (simp_all add: axisDirection_def movement_of_def)
  from scale_drag_clamped [OF h] m show ?thesis by simp
qed

text \<open>
  Claim C5. While dragging in rotate mode, one drag update rotates the position of the
  selected object about that same position: the position is unchanged, for every axis,
  ray and sensitivity. Only the anchor changes.
\<close>

theorem rotate_drag_position_unchanged:
  assumes "isDragging s" and "0 \<le> selectedObject s"
    and "nat (selectedObject s) < length (objects s)"
    and "axisDirection (selectedAxis s) = Some axis"
    and "currentMode s = ROTATE"
  shows "drag_update rayOrigin rayDirection s = Inr (s\<lparr>initialClickPosition := vadd rayOrigin rayDirection\<rparr>)
         \<and> rotate_position
               (movement_of (vadd rayOrigin rayDirection) (initialClickPosition s) axis (movementSensitivity s))
               axis (movementSensitivity s) (position (objects s ! nat (selectedObject s)))
             = Some (position (objects s ! nat (selectedObject s)))"
proof -
  have u: "dot axis axis = 1" using assms(4) by (rule axisDirection_unit)
  have "(objects s)[nat (selectedObject s) := objects s ! nat (selectedObject s)] = objects s"
    by (rule list_update_id)
  then show ?thesis
    using assms by (simp add: drag_update_active apply_mode_def rotate_position_fixed[OF u])
qed

text \<open>
  A rotate drag about Y of an object at (1, 2, 3).
\<close>

theorem rotate_drag_position_unchanged_witness:
  "drag_update (Vec3 0 0 3) (Vec3 0 1 0)
      \<lparr>objects = [\<lparr>position = Vec3 1 2 3, scale = Vec3 1 1 1, color = Vec4 1 1 1 1, isCube = True, textureID = 0\<rparr>], selectedObject = 0, selectedAxis = 1, isDragging = True,
        initialClickPosition = Vec3 0 0 0, currentMode = ROTATE, movementSensitivity = 4.0\<rparr>
   = Inr \<lparr>objects = [\<lparr>position = Vec3 1 2 3, scale = Vec3 1 1 1, color = Vec4 1 1 1 1, isCube = True, textureID = 0\<rparr>], selectedObject = 0, selectedAxis = 1, isDragging = True,
        initialClickPosition = Vec3 0 1 3, currentMode = ROTATE, movementSensitivity = 4.0\<rparr>"
proof -
  let ?s = "\<lparr>objects = [\<lparr>position = Vec3 1 2 3, scale = Vec3 1 1 1, color = Vec4 1 1 1 1, isCube = True, textureID = 0\<rparr>], selectedObject = 0, selectedAxis = 1, isDragging = True,
        initialClickPosition = Vec3 0 0 0, currentMode = ROTATE, movementSensitivity = 4.0\<rparr>"
  have h: "isDragging ?s" "0 \<le> selectedObject ?s" "nat (selectedObject ?s) < length (objects ?s)"
    "axisDirection (selectedAxis ?s) = Some (Vec3 0 1 0)" "currentMode ?s = ROTATE"
    by (simp_all add: axisDirection_def)
  from rotate_drag_position_unchanged [OF h, of "Vec3 0 0 3" "Vec3 0 1 0"] show ?thesis by simp
qed

section \<open>The press of the left button\<close>

text \<open>
  Claim C8. When ImGui wants the mouse, a press of the left button returns before any
  test: the globals (selection, drag state, objects) are unchanged, whatever they are.
\<close>

theorem ui_capture_press_unchanged:
  "WantCaptureMouse inp \<Longrightarrow> mouse_button_callback inp LEFT PRESS s = Inr s"
  by (simp add: mouse_button_callback_def)

text \<open>
  A press over a panel, with the default state.
\<close>

theorem ui_capture_press_unchanged_witness:
  "WantCaptureMouse \<lparr>WantCaptureMouse = True, camera_Position = Vec3 0 0 5, cursor_ray = Vec3 0 0 (-1)\<rparr>
   \<and> mouse_button_callback \<lparr>WantCaptureMouse = True, camera_Position = Vec3 0 0 5, cursor_ray = Vec3 0 0 (-1)\<rparr> LEFT PRESS
       \<lparr>objects = [\<lparr>position = Vec3 0 0 0, scale = Vec3 1 1 1, color = Vec4 1 1 1 1, isCube = True, textureID = 0\<rparr>], selectedObject = -1, selectedAxis = -1, isDragging = False,
        initialClickPosition = Vec3 0 0 0, currentMode = TRANSLATE, movementSensitivity = 4.0\<rparr>
     = Inr \<lparr>objects = [\<lparr>position = Vec3 0 0 0, scale = Vec3 1 1 1, color = Vec4 1 1 1 1, isCube = True, textureID = 0\<rparr>], selectedObject = -1, selectedAxis = -1, isDragging = False,
        initialClickPosition = Vec3 0 0 0, currentMode = TRANSLATE, movementSensitivity = 4.0\<rparr>"
  using ui_capture_press_unchanged [of "\<lparr>WantCaptureMouse = True, camera_Position = Vec3 0 0 5, cursor_ray = Vec3 0 0 (-1)\<rparr>"
      "\<lparr>objects = [\<lparr>position = Vec3 0 0 0, scale = Vec3 1 1 1, color = Vec4 1 1 1 1, isCube = True, textureID = 0\<rparr>], selectedObject = -1, selectedAxis = -1, isDragging = False,
        initialClickPosition = Vec3 0 0 0, currentMode = TRANSLATE, movementSensitivity = 4.0\<rparr>"]
  by simp

lemma fdiv_one: "fdiv x 1 = Some x" by (simp add: fdiv_def)

lemma DistanceFromRayToLineSegment_unit_arrow:
  assumes "dot e e = 1"
  shows "DistanceFromRayToLineSegment ray_origin d p (vadd p e) =
           fdiv (length_v (cross d (vsub (vadd p (smul (clamp (dot (vsub ray_origin p) e) 0 1) e)) ray_origin)))
                (length_v d)"
  using assms
  by (simp add: DistanceFromRayToLineSegment_def Let_def vsub_vadd_same normalize_v_unit
        length_v_def dot_smul_left fdiv_one vmuls_one)

lemma sqrt_ratio_less:
  assumes "0 < b"
  shows "sqrt a / sqrt b < 0.2 \<longleftrightarrow> a < 0.04 * b"
proof -
  have "sqrt a / sqrt b = sqrt (a / b)" by (simp add: real_sqrt_divide)
  moreover have "(0.2::real) = sqrt 0.04"
    by (rule sym, rule real_sqrt_unique) (simp_all add: power2_eq_square)
  ultimately have "sqrt a / sqrt b < 0.2 \<longleftrightarrow> a / b < 0.04"
    by (simp only: real_sqrt_less_iff)
  also have "\<dots> \<longleftrightarrow> a < 0.04 * b" using assms by (simp add: field_simps)
  finally show ?thesis .
qed

lemma arrow_clicked_unit:
  assumes "dot e e = 1"
  shows "arrow_clicked ray_origin d p (vadd p e) \<longleftrightarrow>
           d \<noteq> Vec3 0 0 0
           \<and> dot (cross d (vsub (vadd p (smul (clamp (dot (vsub ray_origin p) e) 0 1) e)) ray_origin))
                 (cross d (vsub (vadd p (smul (clamp (dot (vsub ray_origin p) e) 0 1) e)) ray_origin))
               < 0.04 * dot d d"
proof (cases "d = Vec3 0 0 0")
  case True
  then show ?thesis
    by (simp add: arrow_clicked_def DistanceFromRayToLineSegment_unit_arrow[OF assms] fdiv_def length_v_def)
next
  case False
  then have pos: "0 < dot d d" using dot_self_nonneg[of d] dot_self_zero[of d] by linarith
  then have "sqrt (dot d d) \<noteq> 0" by simp
  then show ?thesis
    using False sqrt_ratio_less[OF pos]
    by (simp add: arrow_clicked_def DistanceFromRayToLineSegment_unit_arrow[OF assms] fdiv_def
          length_v_def gizmoClickRadius_def)
qed

lemma vadd_vsub_same: "vadd p (vsub q p) = q" by (cases p; cases q) simp

lemma arrow_clicked_eval:
  assumes "dot (vsub q p) (vsub q p) = 1"
  shows "arrow_clicked ray_origin d p q \<longleftrightarrow>
           d \<noteq> Vec3 0 0 0
           \<and> dot (cross d (vsub (vadd p (smul (clamp (dot (vsub ray_origin p) (vsub q p)) 0 1) (vsub q p))) ray_origin))
                 (cross d (vsub (vadd p (smul (clamp (dot (vsub ray_origin p) (vsub q p)) 0 1) (vsub q p))) ray_origin))
               < 0.04 * dot d d"
  using arrow_clicked_unit[OF assms, of ray_origin d p] by (simp add: vadd_vsub_same)


lemma ring_ray_misses_unit_cube:
  "\<not> RayIntersectsObject (Vec3 5 0 (-1)) (Vec3 (-1) 0 0)
       \<lparr>position = Vec3 0 0 0, scale = Vec3 1 1 1, color = Vec4 1 1 1 1, isCube = True, textureID = 0\<rparr>"
proof -
  have "discriminant (Vec3 5 0 (-1)) (Vec3 (-1) 0 0)
       \<lparr>position = Vec3 0 0 0, scale = Vec3 1 1 1, color = Vec4 1 1 1 1, isCube = True, textureID = 0\<rparr> = Val (-1)"
    by (subst discriminant_unit) (simp_all add: radius_squared_unit f_sub_def round32_quarters)
  then show ?thesis by (simp add: RayIntersectsObject_iff)
qed

text \<open>
  Claim C2 fails on the code: the callback never looks at the mode.
  In rotate mode, with the unit cube at the origin selected, the ray from (5, 0, -1)
  towards (-1, 0, 0) meets the X ring of radius 1.0 (\<open>IsRayNearCircle\<close> holds, and
  \<open>HandleGizmoInteraction\<close>, which nothing calls, would start a drag about X). The
  callback tests the three arrows, finds none, and deselects the object.
  In the same state the ray from (0.5, 0, 5) towards (0, 0, -1) is near no ring, and the
  callback starts a drag on X because the ray meets the X arrow.
\<close>

theorem rotate_mode_press_ignores_rings:
  "IsRayNearCircle (Vec3 5 0 (-1)) (Vec3 (-1) 0 0) (Vec3 0 0 0) (Vec3 1 0 0) 1.0
   \<and> HandleGizmoInteraction (Vec3 5 0 (-1)) (Vec3 (-1) 0 0)
       \<lparr>objects = [\<lparr>position = Vec3 0 0 0, scale = Vec3 1 1 1, color = Vec4 1 1 1 1, isCube = True, textureID = 0\<rparr>], selectedObject = 0, selectedAxis = -1, isDragging = False,
        initialClickPosition = Vec3 0 0 0, currentMode = ROTATE, movementSensitivity = 4.0\<rparr>
     = Inr \<lparr>objects = [\<lparr>position = Vec3 0 0 0, scale = Vec3 1 1 1, color = Vec4 1 1 1 1, isCube = True, textureID = 0\<rparr>], selectedObject = 0, selectedAxis = 0, isDragging = True,
        initialClickPosition = Vec3 0 0 0, currentMode = ROTATE, movementSensitivity = 4.0\<rparr>
   \<and> mouse_button_callback \<lparr>WantCaptureMouse = False, camera_Position = Vec3 5 0 (-1), cursor_ray = Vec3 (-1) 0 0\<rparr> LEFT PRESS
       \<lparr>objects = [\<lparr>position = Vec3 0 0 0, scale = Vec3 1 1 1, color = Vec4 1 1 1 1, isCube = True, textureID = 0\<rparr>], selectedObject = 0, selectedAxis = -1, isDragging = False,
        initialClickPosition = Vec3 0 0 0, currentMode = ROTATE, movementSensitivity = 4.0\<rparr>
     = Inr \<lparr>objects = [\<lparr>position = Vec3 0 0 0, scale = Vec3 1 1 1, color = Vec4 1 1 1 1, isCube = True, textureID = 0\<rparr>], selectedObject = -1, selectedAxis = -1, isDragging = False,
        initialClickPosition = Vec3 0 0 0, currentMode = ROTATE, movementSensitivity = 4.0\<rparr>
   \<and> \<not> IsRayNearCircle (Vec3 0.5 0 5) (Vec3 0 0 (-1)) (Vec3 0 0 0) (Vec3 1 0 0) 1.0
   \<and> \<not> IsRayNearCircle (Vec3 0.5 0 5) (Vec3 0 0 (-1)) (Vec3 0 0 0) (Vec3 0 1 0) 1.0
   \<and> \<not> IsRayNearCircle (Vec3 0.5 0 5) (Vec3 0 0 (-1)) (Vec3 0 0 0) (Vec3 0 0 1) 1.0
   \<and> mouse_button_callback \<lparr>WantCaptureMouse = False, camera_Position = Vec3 0.5 0 5, cursor_ray = Vec3 0 0 (-1)\<rparr> LEFT PRESS
       \<lparr>objects = [\<lparr>position = Vec3 0 0 0, scale = Vec3 1 1 1, color = Vec4 1 1 1 1, isCube = True, textureID = 0\<rparr>], selectedObject = 0, selectedAxis = -1, isDragging = False,
        initialClickPosition = Vec3 0 0 0, currentMode = ROTATE, movementSensitivity = 4.0\<rparr>
     = Inr \<lparr>objects = [\<lparr>position = Vec3 0 0 0, scale = Vec3 1 1 1, color = Vec4 1 1 1 1, isCube = True, textureID = 0\<rparr>], selectedObject = 0, selectedAxis = 0, isDragging = True,
        initialClickPosition = Vec3 0.5 0 4, currentMode = ROTATE, movementSensitivity = 4.0\<rparr>"
proof (intro conjI)
  show "IsRayNearCircle (Vec3 5 0 (-1)) (Vec3 (-1) 0 0) (Vec3 0 0 0) (Vec3 1 0 0) 1.0"
    by (simp add: IsRayNearCircle_def fdiv_def length_v_def)
  then show "HandleGizmoInteraction (Vec3 5 0 (-1)) (Vec3 (-1) 0 0)
       \<lparr>objects = [\<lparr>position = Vec3 0 0 0, scale = Vec3 1 1 1, color = Vec4 1 1 1 1, isCube = True, textureID = 0\<rparr>], selectedObject = 0, selectedAxis = -1, isDragging = False,
        initialClickPosition = Vec3 0 0 0, currentMode = ROTATE, movementSensitivity = 4.0\<rparr>
     = Inr \<lparr>objects = [\<lparr>position = Vec3 0 0 0, scale = Vec3 1 1 1, color = Vec4 1 1 1 1, isCube = True, textureID = 0\<rparr>], selectedObject = 0, selectedAxis = 0, isDragging = True,
        initialClickPosition = Vec3 0 0 0, currentMode = ROTATE, movementSensitivity = 4.0\<rparr>"
    by (simp add: HandleGizmoInteraction_def Let_def)
  show "mouse_button_callback \<lparr>WantCaptureMouse = False, camera_Position = Vec3 5 0 (-1), cursor_ray = Vec3 (-1) 0 0\<rparr> LEFT PRESS
       \<lparr>objects = [\<lparr>position = Vec3 0 0 0, scale = Vec3 1 1 1, color = Vec4 1 1 1 1, isCube = True, textureID = 0\<rparr>], selectedObject = 0, selectedAxis = -1, isDragging = False,
        initialClickPosition = Vec3 0 0 0, currentMode = ROTATE, movementSensitivity = 4.0\<rparr>
     = Inr \<lparr>objects = [\<lparr>position = Vec3 0 0 0, scale = Vec3 1 1 1, color = Vec4 1 1 1 1, isCube = True, textureID = 0\<rparr>], selectedObject = -1, selectedAxis = -1, isDragging = False,
        initialClickPosition = Vec3 0 0 0, currentMode = ROTATE, movementSensitivity = 4.0\<rparr>"
    by (simp add: mouse_button_callback_def gizmo_click_def object_click_def arrow_clicked_eval
          clamp_def ring_ray_misses_unit_cube)
  show "\<not> IsRayNearCircle (Vec3 0.5 0 5) (Vec3 0 0 (-1)) (Vec3 0 0 0) (Vec3 1 0 0) 1.0"
    by (simp add: IsRayNearCircle_def fdiv_def)
  show "\<not> IsRayNearCircle (Vec3 0.5 0 5) (Vec3 0 0 (-1)) (Vec3 0 0 0) (Vec3 0 1 0) 1.0"
    by (simp add: IsRayNearCircle_def fdiv_def)
  show "\<not> IsRayNearCircle (Vec3 0.5 0 5) (Vec3 0 0 (-1)) (Vec3 0 0 0) (Vec3 0 0 1) 1.0"
    by (simp add: IsRayNearCircle_def fdiv_def length_v_def real_sqrt_divide)
  show "mouse_button_callback \<lparr>WantCaptureMouse = False, camera_Position = Vec3 0.5 0 5, cursor_ray = Vec3 0 0 (-1)\<rparr> LEFT PRESS
       \<lparr>objects = [\<lparr>position = Vec3 0 0 0, scale = Vec3 1 1 1, color = Vec4 1 1 1 1, isCube = True, textureID = 0\<rparr>], selectedObject = 0, selectedAxis = -1, isDragging = False,
        initialClickPosition = Vec3 0 0 0, currentMode = ROTATE, movementSensitivity = 4.0\<rparr>
     = Inr \<lparr>objects = [\<lparr>position = Vec3 0 0 0, scale = Vec3 1 1 1, color = Vec4 1 1 1 1, isCube = True, textureID = 0\<rparr>], selectedObject = 0, selectedAxis = 0, isDragging = True,
        initialClickPosition = Vec3 0.5 0 4, currentMode = ROTATE, movementSensitivity = 4.0\<rparr>"
    by (simp add: mouse_button_callback_def gizmo_click_def object_click_def arrow_clicked_eval
          clamp_def)
qed

text \<open>
  The input that falsifies claim C7 as stated: with the zero direction, the segment test
  on the X arrow of an object at the origin ends in 0 / 0 and returns NaN, and the circle
  test divides by dot(direction, normal) = 0.
\<close>

theorem zero_direction_segment_counterexample:
  "DistanceFromRayToLineSegment (Vec3 0 0 5) (Vec3 0 0 0) (Vec3 0 0 0) (Vec3 1 0 0) = None
   \<and> fdiv (dot (vsub (Vec3 0 0 0) (Vec3 0 0 5)) (Vec3 0 0 1)) (dot (Vec3 0 0 0) (Vec3 0 0 1)) = None"
  by (simp add: DistanceFromRayToLineSegment_def normalize_v_def fdiv_def length_v_def Let_def)

text \<open>
  Claim C7, amended. With a zero-length ray direction: the ray/sphere test has no
  division and returns false (the discriminant of the quadratic is 0, and the program
  computes 0, or NaN where an infinity meets the zero); the ray/segment test is unguarded
  and returns NaN, the result of dividing by the zero length of the direction, which the
  comparison with the click radius then treats as no hit; the circle test is unguarded,
  divides by dot(direction, normal) = 0, and returns false.
\<close>

theorem zero_direction_tests:
  "RayIntersectsObject ray_origin (Vec3 0 0 0) object = False
   \<and> discriminant_exact ray_origin (Vec3 0 0 0) object = 0
   \<and> (discriminant ray_origin (Vec3 0 0 0) object = Val 0
        \<or> discriminant ray_origin (Vec3 0 0 0) object = NaN)
   \<and> DistanceFromRayToLineSegment ray_origin (Vec3 0 0 0) line_start line_end = None
   \<and> arrow_clicked ray_origin (Vec3 0 0 0) line_start line_end = False
   \<and> fdiv (dot (vsub center ray_origin) normal) (dot (Vec3 0 0 0) normal) = None
   \<and> IsRayNearCircle ray_origin (Vec3 0 0 0) center normal radius = False"
proof -
  have z: "dot (Vec3 0 0 0) v = 0" for v by (cases v) simp
  have z': "dot v (Vec3 0 0 0) = 0" for v by (cases v) simp
  have d: "discriminant_exact ray_origin (Vec3 0 0 0) object = 0"
    by (simp add: discriminant_exact_def Let_def z')
  have seg: "DistanceFromRayToLineSegment ray_origin (Vec3 0 0 0) line_start line_end = None"
    by (simp add: DistanceFromRayToLineSegment_def Let_def fdiv_def length_v_def
          split: option.splits)
  have circ: "fdiv (dot (vsub center ray_origin) normal) (dot (Vec3 0 0 0) normal) = None"
    by (simp add: fdiv_def z)
  show ?thesis
    using d seg circ discriminant_zero_direction[of ray_origin object]
      RayIntersectsObject_zero_direction[of ray_origin object]
    by (simp add: arrow_clicked_def IsRayNearCircle_def)
qed

lemma position_rescaled:
  "position (xs[i := (xs ! i)\<lparr>scale := sc\<rparr>] ! j) = position (xs ! j)"
proof (cases "i < length xs")
  case True
  then show ?thesis by (simp add: nth_list_update)
next
  case False
  then show ?thesis by (simp add: list_update_beyond)
qed

lemma gizmo_click_rescaled:
  "map_sum id (\<lambda>t. (selectedAxis t, isDragging t, initialClickPosition t, selectedObject t))
     (gizmo_click ro rd (s\<lparr>objects := (objects s)[i := (objects s ! i)\<lparr>scale := sc\<rparr>], currentMode := m\<rparr>))
   = map_sum id (\<lambda>t. (selectedAxis t, isDragging t, initialClickPosition t, selectedObject t))
     (gizmo_click ro rd s)"
  by (simp add: gizmo_click_def Let_def position_rescaled)

lemma object_click_drag_state:
  "selectedAxis (object_click ro rd s) = selectedAxis s"
  "isDragging (object_click ro rd s) = isDragging s"
  "initialClickPosition (object_click ro rd s) = initialClickPosition s"
  by (simp_all add: object_click_def)

lemma gizmo_click_axis:
  assumes "0 \<le> selectedObject s" "nat (selectedObject s) < length (objects s)"
  shows "\<exists>s'. gizmo_click ro rd s = Inr s'
          \<and> selectedAxis s' =
             (if arrow_clicked ro rd (position (objects s ! nat (selectedObject s)))
                   (vadd (position (objects s ! nat (selectedObject s))) (Vec3 1 0 0)) then 0
              else if arrow_clicked ro rd (position (objects s ! nat (selectedObject s)))
                   (vadd (position (objects s ! nat (selectedObject s))) (Vec3 0 1 0)) then 1
              else if arrow_clicked ro rd (position (objects s ! nat (selectedObject s)))
                   (vadd (position (objects s ! nat (selectedObject s))) (Vec3 0 0 1)) then 2
              else selectedAxis s)"
  using assms by (simp add: gizmo_click_def Let_def)

text \<open>
  Claim C10. The axis that a press of the left button selects, the drag flag and the
  anchor are the same when the scale of an object and the mode are changed. With an
  object selected, the axis is decided by the three segments from the position of the
  object to the position plus one unit vector, X before Y before Z. The handles of the
  scale gizmo are drawn at the position plus the scale component along each axis.
\<close>

theorem axis_selection_ignores_scale:
  "map_sum id (\<lambda>t. (selectedAxis t, isDragging t, initialClickPosition t))
     (mouse_button_callback inp btn act
        (s\<lparr>objects := (objects s)[i := (objects s ! i)\<lparr>scale := sc\<rparr>], currentMode := m\<rparr>))
   = map_sum id (\<lambda>t. (selectedAxis t, isDragging t, initialClickPosition t))
     (mouse_button_callback inp btn act s)
   \<and> (\<not> WantCaptureMouse inp \<and> 0 \<le> selectedObject s \<and> nat (selectedObject s) < length (objects s)
        \<and> obj = objects s ! nat (selectedObject s)
      \<longrightarrow> (\<exists>s'. mouse_button_callback inp LEFT PRESS s = Inr s'
             \<and> selectedAxis s' =
                (if arrow_clicked (camera_Position inp) (cursor_ray inp) (position obj)
                      (vadd (position obj) (Vec3 1 0 0)) then 0
                 else if arrow_clicked (camera_Position inp) (cursor_ray inp) (position obj)
                      (vadd (position obj) (Vec3 0 1 0)) then 1
                 else if arrow_clicked (camera_Position inp) (cursor_ray inp) (position obj)
                      (vadd (position obj) (Vec3 0 0 1)) then 2
                 else -1)))
   \<and> xEnd obj = vadd (position obj) (Vec3 (vx (scale obj)) 0 0)
   \<and> yEnd obj = vadd (position obj) (Vec3 0 (vy (scale obj)) 0)
   \<and> zEnd obj = vadd (position obj) (Vec3 0 0 (vz (scale obj)))"
proof (intro conjI impI)
  let ?s' = "s\<lparr>objects := (objects s)[i := (objects s ! i)\<lparr>scale := sc\<rparr>], currentMode := m\<rparr>"
  let ?p = "\<lambda>t. (selectedAxis t, isDragging t, initialClickPosition t)"
  let ?q = "\<lambda>t. (selectedAxis t, isDragging t, initialClickPosition t, selectedObject t)"
  show "map_sum id ?p (mouse_button_callback inp btn act ?s') = map_sum id ?p (mouse_button_callback inp btn act s)"
  proof (cases "btn = LEFT \<and> act = PRESS \<and> \<not> WantCaptureMouse inp")
    case False
    then show ?thesis by (auto simp: mouse_button_callback_def)
  next
    case True
    have g: "map_sum id ?q (gizmo_click (camera_Position inp) (cursor_ray inp) (?s'\<lparr>selectedAxis := -1\<rparr>))
           = map_sum id ?q (gizmo_click (camera_Position inp) (cursor_ray inp) (s\<lparr>selectedAxis := -1\<rparr>))"
    proof -
      have "?s'\<lparr>selectedAxis := -1\<rparr>
            = (s\<lparr>selectedAxis := -1\<rparr>)\<lparr>objects := (objects (s\<lparr>selectedAxis := -1\<rparr>))
                  [i := (objects (s\<lparr>selectedAxis := -1\<rparr>) ! i)\<lparr>scale := sc\<rparr>], currentMode := m\<rparr>"
        by (cases s) simp
      then show ?thesis
        by (simp only: gizmo_click_rescaled)
    qed
    show ?thesis
    proof (cases "gizmo_click (camera_Position inp) (cursor_ray inp) (s\<lparr>selectedAxis := -1\<rparr>)")
      case (Inl e)
      with g have "gizmo_click (camera_Position inp) (cursor_ray inp) (?s'\<lparr>selectedAxis := -1\<rparr>) = Inl e"
        by (cases "gizmo_click (camera_Position inp) (cursor_ray inp) (?s'\<lparr>selectedAxis := -1\<rparr>)") simp_all
      with Inl True show ?thesis by (simp add: mouse_button_callback_def)
    next
      case (Inr t)
      with g obtain t' where t': "gizmo_click (camera_Position inp) (cursor_ray inp) (?s'\<lparr>selectedAxis := -1\<rparr>) = Inr t'"
        and eq: "?q t' = ?q t"
        by (cases "gizmo_click (camera_Position inp) (cursor_ray inp) (?s'\<lparr>selectedAxis := -1\<rparr>)") simp_all
      from Inr t' True eq show ?thesis
        by (simp add: mouse_button_callback_def object_click_drag_state)
    qed
  qed
next
  assume h: "\<not> WantCaptureMouse inp \<and> 0 \<le> selectedObject s \<and> nat (selectedObject s) < length (objects s)
        \<and> obj = objects s ! nat (selectedObject s)"
  from h gizmo_click_axis[of "s\<lparr>selectedAxis := -1\<rparr>" "camera_Position inp" "cursor_ray inp"]
  obtain s1 where s1: "gizmo_click (camera_Position inp) (cursor_ray inp) (s\<lparr>selectedAxis := -1\<rparr>) = Inr s1"
    and ax: "selectedAxis s1 =
                (if arrow_clicked (camera_Position inp) (cursor_ray inp) (position obj)
                      (vadd (position obj) (Vec3 1 0 0)) then 0
                 else if arrow_clicked (camera_Position inp) (cursor_ray inp) (position obj)
                      (vadd (position obj) (Vec3 0 1 0)) then 1
                 else if arrow_clicked (camera_Position inp) (cursor_ray inp) (position obj)
                      (vadd (position obj) (Vec3 0 0 1)) then 2
                 else -1)"
    by auto
  from h s1 have "mouse_button_callback inp LEFT PRESS s
        = Inr (object_click (camera_Position inp) (cursor_ray inp) s1)"
    by (simp add: mouse_button_callback_def)
  with ax show "\<exists>s'. mouse_button_callback inp LEFT PRESS s = Inr s'
             \<and> selectedAxis s' =
                (if arrow_clicked (camera_Position inp) (cursor_ray inp) (position obj)
                      (vadd (position obj) (Vec3 1 0 0)) then 0
                 else if arrow_clicked (camera_Position inp) (cursor_ray inp) (position obj)
                      (vadd (position obj) (Vec3 0 1 0)) then 1
                 else if arrow_clicked (camera_Position inp) (cursor_ray inp) (position obj)
                      (vadd (position obj) (Vec3 0 0 1)) then 2
                 else -1)"
    by (simp add: object_click_drag_state)
qed (simp_all add: xEnd_def yEnd_def zEnd_def)

text \<open>
  A cube of scale (3, 1, 1) in scale mode: the ray through the X handle at (3, 0, 0)
  selects no axis.
\<close>

theorem axis_selection_ignores_scale_witness:
  "\<not> WantCaptureMouse \<lparr>WantCaptureMouse = False, camera_Position = Vec3 3 0 5, cursor_ray = Vec3 0 0 (-1)\<rparr>
   \<and> xEnd \<lparr>position = Vec3 0 0 0, scale = Vec3 3 1 1, color = Vec4 1 1 1 1, isCube = True, textureID = 0\<rparr> = Vec3 3 0 0
   \<and> (\<exists>s'. mouse_button_callback \<lparr>WantCaptureMouse = False, camera_Position = Vec3 3 0 5, cursor_ray = Vec3 0 0 (-1)\<rparr> LEFT PRESS
             \<lparr>objects = [\<lparr>position = Vec3 0 0 0, scale = Vec3 3 1 1, color = Vec4 1 1 1 1, isCube = True, textureID = 0\<rparr>], selectedObject = 0, selectedAxis = -1, isDragging = False,
        initialClickPosition = Vec3 0 0 0, currentMode = SCALE, movementSensitivity = 4.0\<rparr> = Inr s'
          \<and> selectedAxis s' = -1)"
  using axis_selection_ignores_scale [where inp = "\<lparr>WantCaptureMouse = False, camera_Position = Vec3 3 0 5, cursor_ray = Vec3 0 0 (-1)\<rparr>"
      and s = "\<lparr>objects = [\<lparr>position = Vec3 0 0 0, scale = Vec3 3 1 1, color = Vec4 1 1 1 1, isCube = True, textureID = 0\<rparr>], selectedObject = 0, selectedAxis = -1, isDragging = False,
        initialClickPosition = Vec3 0 0 0, currentMode = SCALE, movementSensitivity = 4.0\<rparr>"
      and obj = "\<lparr>position = Vec3 0 0 0, scale = Vec3 3 1 1, color = Vec4 1 1 1 1, isCube = True, textureID = 0\<rparr>"]
  by (simp add: arrow_clicked_eval clamp_def)

section \<open>Object picking\<close>

lemma pick_loop_none:
  "(\<forall>ob \<in> set obs. \<not> RayIntersectsObject ro rd ob) \<Longrightarrow> pick_loop ro rd obs i = -1"
  by (induction obs arbitrary: i) simp_all

lemma pick_loop_first:
  "(\<forall>x \<in> set xs. \<not> RayIntersectsObject ro rd x) \<Longrightarrow> RayIntersectsObject ro rd ob
   \<Longrightarrow> pick_loop ro rd (xs @ ob # ys) i = int (i + length xs)"
  by (induction xs arbitrary: i) simp_all

lemma pick_loop_index:
  assumes "k < length obs" and "RayIntersectsObject ro rd (obs ! k)"
    and "\<forall>j<k. \<not> RayIntersectsObject ro rd (obs ! j)"
  shows "pick_loop ro rd obs 0 = int k"
proof -
  have split: "obs = take k obs @ obs ! k # drop (Suc k) obs"
    using assms(1) by (rule id_take_nth_drop)
  have miss: "\<forall>x \<in> set (take k obs). \<not> RayIntersectsObject ro rd x"
    using assms(1,3) by (auto simp: in_set_conv_nth)
  have "pick_loop ro rd (take k obs @ obs ! k # drop (Suc k) obs) 0 = int (0 + length (take k obs))"
    using miss assms(2) by (rule pick_loop_first)
  then show ?thesis using split assms(1) by simp
qed

lemma pick_loop_range:
  "pick_loop ro rd obs i = -1 \<or> (int i \<le> pick_loop ro rd obs i \<and> pick_loop ro rd obs i < int (i + length obs))"
proof (induction obs arbitrary: i)
  case Nil
  show ?case by simp
next
  case (Cons ob obs)
  show ?case using Cons.IH[of "Suc i"] by auto
qed

lemma press_without_gizmo:
  assumes "\<not> WantCaptureMouse inp"
    and "selectedObject s = -1
         \<or> (0 \<le> selectedObject s \<and> nat (selectedObject s) < length (objects s) \<and> \<not> isDragging s
            \<and> \<not> arrow_clicked (camera_Position inp) (cursor_ray inp)
                  (position (objects s ! nat (selectedObject s)))
                  (vadd (position (objects s ! nat (selectedObject s))) (Vec3 1 0 0))
            \<and> \<not> arrow_clicked (camera_Position inp) (cursor_ray inp)
                  (position (objects s ! nat (selectedObject s)))
                  (vadd (position (objects s ! nat (selectedObject s))) (Vec3 0 1 0))
            \<and> \<not> arrow_clicked (camera_Position inp) (cursor_ray inp)
                  (position (objects s ! nat (selectedObject s)))
                  (vadd (position (objects s ! nat (selectedObject s))) (Vec3 0 0 1)))"
  shows "mouse_button_callback inp LEFT PRESS s =
           Inr (s\<lparr>selectedAxis := -1,
                   selectedObject := pick_loop (camera_Position inp) (cursor_ray inp) (objects s) 0\<rparr>)"
  using assms
  by (auto simp: mouse_button_callback_def gizmo_click_def object_click_def Let_def)

text \<open>
  A press outside the panels, with nothing selected, or with no drag active and no arrow
  of the selected object matched: the callback returns without fault and the selection
  becomes the first index whose object the ray/sphere test accepts, or -1 when there is
  none; the objects after the first match have no influence.
\<close>

lemma press_picks_first_match:
  assumes "\<not> WantCaptureMouse inp"
    and "selectedObject s = -1
         \<or> (0 \<le> selectedObject s \<and> nat (selectedObject s) < length (objects s) \<and> \<not> isDragging s
            \<and> \<not> arrow_clicked (camera_Position inp) (cursor_ray inp)
                  (position (objects s ! nat (selectedObject s)))
                  (vadd (position (objects s ! nat (selectedObject s))) (Vec3 1 0 0))
            \<and> \<not> arrow_clicked (camera_Position inp) (cursor_ray inp)
                  (position (objects s ! nat (selectedObject s)))
                  (vadd (position (objects s ! nat (selectedObject s))) (Vec3 0 1 0))
            \<and> \<not> arrow_clicked (camera_Position inp) (cursor_ray inp)
                  (position (objects s ! nat (selectedObject s)))
                  (vadd (position (objects s ! nat (selectedObject s))) (Vec3 0 0 1)))"
  shows "\<exists>s'. mouse_button_callback inp LEFT PRESS s = Inr s'
          \<and> objects s' = objects s
          \<and> (\<forall>k. k < length (objects s)
                  \<and> RayIntersectsObject (camera_Position inp) (cursor_ray inp) (objects s ! k)
                  \<and> (\<forall>j<k. \<not> RayIntersectsObject (camera_Position inp) (cursor_ray inp) (objects s ! j))
                \<longrightarrow> selectedObject s' = int k)
          \<and> ((\<forall>j<length (objects s).
                   \<not> RayIntersectsObject (camera_Position inp) (cursor_ray inp) (objects s ! j))
                \<longrightarrow> selectedObject s' = -1)
          \<and> (objects s = [] \<longrightarrow> selectedObject s' = -1)
          \<and> (\<forall>xs ob ys zs.
                  (\<forall>x \<in> set xs. \<not> RayIntersectsObject (camera_Position inp) (cursor_ray inp) x)
                  \<and> RayIntersectsObject (camera_Position inp) (cursor_ray inp) ob
                \<longrightarrow> pick_loop (camera_Position inp) (cursor_ray inp) (xs @ ob # ys) 0
                      = pick_loop (camera_Position inp) (cursor_ray inp) (xs @ ob # zs) 0)"
proof -
  let ?ro = "camera_Position inp" and ?rd = "cursor_ray inp"
  let ?s' = "s\<lparr>selectedAxis := -1, selectedObject := pick_loop ?ro ?rd (objects s) 0\<rparr>"
  have run: "mouse_button_callback inp LEFT PRESS s = Inr ?s'"
    using assms by (rule press_without_gizmo)
  have first: "selectedObject ?s' = int k"
    if "k < length (objects s) \<and> RayIntersectsObject ?ro ?rd (objects s ! k)
        \<and> (\<forall>j<k. \<not> RayIntersectsObject ?ro ?rd (objects s ! j))" for k
    using that pick_loop_index[of k "objects s" ?ro ?rd] by simp
  have none: "selectedObject ?s' = -1"
    if "\<forall>j<length (objects s). \<not> RayIntersectsObject ?ro ?rd (objects s ! j)"
  proof -
    from that have "\<forall>ob \<in> set (objects s). \<not> RayIntersectsObject ?ro ?rd ob"
      by (auto simp: in_set_conv_nth)
    then show ?thesis by (simp add: pick_loop_none)
  qed
  have empty: "objects s = [] \<longrightarrow> selectedObject ?s' = -1" by simp
  have later: "pick_loop ?ro ?rd (xs @ ob # ys) 0 = pick_loop ?ro ?rd (xs @ ob # zs) 0"
    if "(\<forall>x \<in> set xs. \<not> RayIntersectsObject ?ro ?rd x) \<and> RayIntersectsObject ?ro ?rd ob"
    for xs ob ys zs
    using that by (simp add: pick_loop_first)
  have obs: "objects ?s' = objects s" by simp
  show ?thesis
    apply (rule exI[of _ ?s'])
    using run first none empty later obs by blast
qed

section \<open>The drag invariant over runs\<close>

lemma selection_ok_pick:
  "pick_loop ro rd obs 0 = -1
   \<or> (0 \<le> pick_loop ro rd obs 0 \<and> nat (pick_loop ro rd obs 0) < length obs)"
  using pick_loop_range[of ro rd obs 0] by auto

lemma apply_mode_Some:
  assumes "dot axis axis = 1"
  shows "\<exists>obj'. apply_mode mode movement axis sensitivity obj = Some obj'"
  using assms by (cases mode) (simp_all add: apply_mode_def rotate_position_fixed)

lemma gizmo_click_cases:
  assumes "0 \<le> selectedObject s" "nat (selectedObject s) < length (objects s)"
  shows "gizmo_click ro rd s = Inr s
         \<or> gizmo_click ro rd s
              = Inr (s\<lparr>selectedAxis := 0, isDragging := True, initialClickPosition := vadd ro rd\<rparr>)
         \<or> gizmo_click ro rd s
              = Inr (s\<lparr>selectedAxis := 1, isDragging := True, initialClickPosition := vadd ro rd\<rparr>)
         \<or> gizmo_click ro rd s
              = Inr (s\<lparr>selectedAxis := 2, isDragging := True, initialClickPosition := vadd ro rd\<rparr>)
         \<or> (isDragging s \<and> gizmo_click ro rd s = Inr (s\<lparr>initialClickPosition := vadd ro rd\<rparr>))"
  using assms by (simp add: gizmo_click_def Let_def)

lemma press_well_formed:
  assumes "well_formed False s"
  shows "\<exists>s'. mouse_button_callback inp LEFT PRESS s = Inr s' \<and> well_formed True s'"
proof (cases "WantCaptureMouse inp")
  case True
  then show ?thesis using assms
    by (simp add: mouse_button_callback_def well_formed_def)
next
  case False
  note nd = assms[unfolded well_formed_def, THEN conjunct2, THEN conjunct2, simplified]
  let ?ro = "camera_Position inp" and ?rd = "cursor_ray inp"
  let ?s0 = "s\<lparr>selectedAxis := -1\<rparr>"
  let ?p = "pick_loop ?ro ?rd (objects s) 0"
  show ?thesis
  proof (cases "selectedObject s = -1")
    case True
    then have "mouse_button_callback inp LEFT PRESS s
                 = Inr (s\<lparr>selectedAxis := -1, selectedObject := ?p\<rparr>)"
      using False by (simp add: press_without_gizmo)
    moreover have "well_formed True (s\<lparr>selectedAxis := -1, selectedObject := ?p\<rparr>)"
      using selection_ok_pick[of ?ro ?rd "objects s"] nd
      by (simp add: well_formed_def drag_invariant_def)
    ultimately show ?thesis by blast
  next
    case sel: False
    with assms have rng: "0 \<le> selectedObject s" "nat (selectedObject s) < length (objects s)"
      by (simp_all add: well_formed_def)
    then have rng0: "0 \<le> selectedObject ?s0" "nat (selectedObject ?s0) < length (objects ?s0)"
      by simp_all
    from gizmo_click_cases[OF rng0, of ?ro ?rd] nd
    consider (miss) "gizmo_click ?ro ?rd ?s0 = Inr ?s0"
      | (hit) a where "a = 0 \<or> a = 1 \<or> a = 2"
          "gizmo_click ?ro ?rd ?s0
             = Inr (?s0\<lparr>selectedAxis := a, isDragging := True, initialClickPosition := vadd ?ro ?rd\<rparr>)"
      by fastforce
    then show ?thesis
    proof cases
      case miss
      then have "mouse_button_callback inp LEFT PRESS s
                 = Inr (s\<lparr>selectedAxis := -1, selectedObject := ?p\<rparr>)"
        using False nd by (simp add: mouse_button_callback_def object_click_def)
      moreover have "well_formed True (s\<lparr>selectedAxis := -1, selectedObject := ?p\<rparr>)"
        using selection_ok_pick[of ?ro ?rd "objects s"] nd
        by (simp add: well_formed_def drag_invariant_def)
      ultimately show ?thesis by blast
    next
      case hit
      then have "mouse_button_callback inp LEFT PRESS s
                 = Inr (?s0\<lparr>selectedAxis := a, isDragging := True, initialClickPosition := vadd ?ro ?rd\<rparr>)"
        using False sel by (simp add: mouse_button_callback_def object_click_def)
      moreover have "well_formed True
            (?s0\<lparr>selectedAxis := a, isDragging := True, initialClickPosition := vadd ?ro ?rd\<rparr>)"
        using hit(1) rng by (simp add: well_formed_def drag_invariant_def)
      ultimately show ?thesis by blast
    qed
  qed
qed

lemma release_well_formed:
  assumes "well_formed down s"
  shows "\<exists>s'. mouse_button_callback inp LEFT RELEASE s = Inr s' \<and> well_formed False s'"
  using assms by (simp add: mouse_button_callback_def well_formed_def drag_invariant_def)

lemma other_button_well_formed:
  assumes "well_formed down s" and "\<not> (btn = LEFT \<and> act = PRESS)" and "\<not> (btn = LEFT \<and> act = RELEASE)"
  shows "mouse_button_callback inp btn act s = Inr s"
  using assms(2,3) by (cases btn; cases act) (simp_all add: mouse_button_callback_def)

lemma drag_update_well_formed:
  assumes "well_formed down s"
  shows "\<exists>s'. drag_update ro rd s = Inr s' \<and> well_formed down s'"
proof (cases "isDragging s")
  case False
  then show ?thesis using assms by (simp add: drag_update_def)
next
  case True
  with assms have ax: "selectedAxis s = 0 \<or> selectedAxis s = 1 \<or> selectedAxis s = 2"
    and rng: "0 \<le> selectedObject s" "nat (selectedObject s) < length (objects s)"
    by (simp_all add: well_formed_def drag_invariant_def)
  from ax obtain axis where axis: "axisDirection (selectedAxis s) = Some axis"
    using axisDirection_Some_iff[of "selectedAxis s"] by blast
  obtain obj' where obj': "apply_mode (currentMode s)
             (movement_of (vadd ro rd) (initialClickPosition s) axis (movementSensitivity s))
             axis (movementSensitivity s) (objects s ! nat (selectedObject s)) = Some obj'"
    using apply_mode_Some[OF axisDirection_unit[OF axis]] by blast
  have "drag_update ro rd s =
          Inr (s\<lparr>objects := (objects s)[nat (selectedObject s) := obj'],
                  initialClickPosition := vadd ro rd\<rparr>)"
    using drag_update_active[OF True rng axis, of ro rd] obj' by simp
  moreover have "well_formed down (s\<lparr>objects := (objects s)[nat (selectedObject s) := obj'],
                  initialClickPosition := vadd ro rd\<rparr>)"
    using assms by (simp add: well_formed_def drag_invariant_def)
  ultimately show ?thesis by blast
qed

lemma panel_well_formed:
  assumes "well_formed down s"
  shows "well_formed down (list_select i s)"
    and "well_formed down (add_button cube s)"
    and "well_formed down (mode_button m s)"
  using assms
  by (auto simp: well_formed_def drag_invariant_def list_select_def add_button_def mode_button_def)

lemma step_well_formed:
  assumes "well_formed down s" and "buttons_alternate down (e # rest)"
  shows "\<exists>s' down'. step e s = Inr s' \<and> well_formed down' s' \<and> buttons_alternate down' rest"
proof (cases e)
  case (MouseButton inp btn act)
  consider (press) "btn = LEFT \<and> act = PRESS" | (release) "btn = LEFT \<and> act = RELEASE"
    | (other) "\<not> (btn = LEFT \<and> act = PRESS) \<and> \<not> (btn = LEFT \<and> act = RELEASE)"
    by blast
  then show ?thesis
  proof cases
    case press
    with assms MouseButton have nd: "\<not> down" and alt: "buttons_alternate True rest" by simp_all
    from assms(1) nd press_well_formed[of s inp]
    obtain s1 where "mouse_button_callback inp LEFT PRESS s = Inr s1" "well_formed True s1"
      by auto
    with alt press MouseButton show ?thesis by auto
  next
    case release
    with assms MouseButton have alt: "buttons_alternate False rest" by simp
    from release_well_formed[OF assms(1), of inp]
    obtain s1 where "mouse_button_callback inp LEFT RELEASE s = Inr s1" "well_formed False s1"
      by auto
    with alt release MouseButton show ?thesis by auto
  next
    case other
    with assms MouseButton have alt: "buttons_alternate down rest" by auto
    from other other_button_well_formed[OF assms(1), of btn act inp]
    have "mouse_button_callback inp btn act s = Inr s" by blast
    with alt assms(1) MouseButton show ?thesis by auto
  qed
next
  case (Frame ro rd)
  with assms have alt: "buttons_alternate down rest" by simp
  from drag_update_well_formed[OF assms(1), of ro rd]
  obtain s1 where "drag_update ro rd s = Inr s1" "well_formed down s1" by auto
  with alt Frame show ?thesis by auto
next
  case (ListSelect i)
  with assms have "buttons_alternate down rest" by simp
  with panel_well_formed(1)[OF assms(1)] ListSelect show ?thesis by auto
next
  case (AddButton cube)
  with assms have "buttons_alternate down rest" by simp
  with panel_well_formed(2)[OF assms(1)] AddButton show ?thesis by auto
next
  case (ModeButton m)
  with assms have "buttons_alternate down rest" by simp
  with panel_well_formed(3)[OF assms(1)] ModeButton show ?thesis by auto
qed

lemma run_well_formed:
  "well_formed down s \<Longrightarrow> buttons_alternate down es
   \<Longrightarrow> \<exists>s'. run es s = Inr s' \<and> drag_invariant s'"
proof (induction es arbitrary: down s)
  case Nil
  then show ?case by (simp add: well_formed_def)
next
  case (Cons e es)
  from step_well_formed[OF Cons.prems]
  obtain s1 down1 where s1: "step e s = Inr s1" "well_formed down1 s1" "buttons_alternate down1 es"
    by blast
  from Cons.IH[OF s1(2,3)] s1(1) show ?case by simp
qed

lemma run_before_press:
  "well_formed down s \<Longrightarrow> buttons_alternate down (es @ [MouseButton inp LEFT PRESS])
   \<Longrightarrow> \<exists>s'. run es s = Inr s' \<and> well_formed False s'"
proof (induction es arbitrary: down s)
  case Nil
  then show ?case by (cases down) simp_all
next
  case (Cons e es)
  from Cons.prems(2) have "buttons_alternate down (e # (es @ [MouseButton inp LEFT PRESS]))" by simp
  from step_well_formed[OF Cons.prems(1) this]
  obtain s1 down1 where s1: "step e s = Inr s1" "well_formed down1 s1"
      "buttons_alternate down1 (es @ [MouseButton inp LEFT PRESS])"
    by blast
  from Cons.IH[OF s1(2,3)] s1(1) show ?case by simp
qed

lemma initial_well_formed: "well_formed False initial_globals"
  by (simp add: well_formed_def drag_invariant_def initial_globals_def)

text \<open>
  In every run from the initial state in which no press of the left button arrives while
  the button is down, no operation faults and the drag invariant holds at the end.
\<close>

lemma drag_invariant_alternating_runs:
  "buttons_alternate False es \<Longrightarrow> \<exists>s'. run es initial_globals = Inr s' \<and> drag_invariant s'"
  using initial_well_formed by (rule run_well_formed)

text \<open>
  In such a run every press finds the drag flag cleared and the selection valid, so that
  the press picks the first matching object whenever it matches no arrow.
\<close>

lemma alternating_press_picks_first_match:
  assumes "buttons_alternate False (es @ [MouseButton inp LEFT PRESS])"
    and "\<not> WantCaptureMouse inp"
  shows "\<exists>s. run es initial_globals = Inr s \<and> \<not> isDragging s
          \<and> (selectedObject s = -1
               \<or> (0 \<le> selectedObject s \<and> nat (selectedObject s) < length (objects s)))
          \<and> (selectedObject s = -1
               \<or> (\<not> arrow_clicked (camera_Position inp) (cursor_ray inp)
                      (position (objects s ! nat (selectedObject s)))
                      (vadd (position (objects s ! nat (selectedObject s))) (Vec3 1 0 0))
                  \<and> \<not> arrow_clicked (camera_Position inp) (cursor_ray inp)
                      (position (objects s ! nat (selectedObject s)))
                      (vadd (position (objects s ! nat (selectedObject s))) (Vec3 0 1 0))
                  \<and> \<not> arrow_clicked (camera_Position inp) (cursor_ray inp)
                      (position (objects s ! nat (selectedObject s)))
                      (vadd (position (objects s ! nat (selectedObject s))) (Vec3 0 0 1)))
             \<longrightarrow> mouse_button_callback inp LEFT PRESS s =
                   Inr (s\<lparr>selectedAxis := -1,
                           selectedObject :=
                             pick_loop (camera_Position inp) (cursor_ray inp) (objects s) 0\<rparr>))"
proof -
  from run_before_press[OF initial_well_formed assms(1)]
  obtain s where s: "run es initial_globals = Inr s" "well_formed False s" by blast
  from s(2) have nd: "\<not> isDragging s"
    and sel: "selectedObject s = -1
               \<or> (0 \<le> selectedObject s \<and> nat (selectedObject s) < length (objects s))"
    by (simp_all add: well_formed_def)
  show ?thesis
    using s(1) nd sel press_without_gizmo[OF assms(2), of s] by blast
qed

text \<open>
  Whatever the order of presses and releases, no operation of a run faults and the
  selection stays valid: while the drag flag is set, the selected object is an index into
  the objects.
\<close>

lemma press_selection_valid:
  assumes "selection_valid s"
  shows "\<exists>s'. mouse_button_callback inp LEFT PRESS s = Inr s' \<and> selection_valid s'"
proof (cases "WantCaptureMouse inp")
  case True
  then show ?thesis using assms by (simp add: mouse_button_callback_def)
next
  case False
  let ?ro = "camera_Position inp" and ?rd = "cursor_ray inp"
  let ?s0 = "s\<lparr>selectedAxis := -1\<rparr>"
  let ?p = "pick_loop ?ro ?rd (objects s) 0"
  note pk = selection_ok_pick[of ?ro ?rd "objects s"]
  show ?thesis
  proof (cases "selectedObject s = -1")
    case True
    then have "mouse_button_callback inp LEFT PRESS s
                 = Inr (s\<lparr>selectedAxis := -1, selectedObject := ?p\<rparr>)"
      using False by (simp add: press_without_gizmo)
    moreover have "selection_valid (s\<lparr>selectedAxis := -1, selectedObject := ?p\<rparr>)"
      using pk assms True by (auto simp: selection_valid_def)
    ultimately show ?thesis by blast
  next
    case sel: False
    with assms have rng: "0 \<le> selectedObject ?s0" "nat (selectedObject ?s0) < length (objects ?s0)"
      by (simp_all add: selection_valid_def)
    from gizmo_click_cases[OF rng, of ?ro ?rd]
    consider (same) "gizmo_click ?ro ?rd ?s0 = Inr ?s0"
      | (hit) a where "a = 0 \<or> a = 1 \<or> a = 2"
          "gizmo_click ?ro ?rd ?s0
             = Inr (?s0\<lparr>selectedAxis := a, isDragging := True, initialClickPosition := vadd ?ro ?rd\<rparr>)"
      | (stale) "isDragging s"
          "gizmo_click ?ro ?rd ?s0 = Inr (?s0\<lparr>initialClickPosition := vadd ?ro ?rd\<rparr>)"
      by fastforce
    then show ?thesis
    proof cases
      case same
      show ?thesis
      proof (cases "isDragging s")
        case True
        with same False sel have "mouse_button_callback inp LEFT PRESS s = Inr ?s0"
          by (simp add: mouse_button_callback_def object_click_def)
        moreover have "selection_valid ?s0" using assms by (simp add: selection_valid_def)
        ultimately show ?thesis by blast
      next
        case nd: False
        with same False have "mouse_button_callback inp LEFT PRESS s
                 = Inr (s\<lparr>selectedAxis := -1, selectedObject := ?p\<rparr>)"
          by (simp add: mouse_button_callback_def object_click_def)
        moreover have "selection_valid (s\<lparr>selectedAxis := -1, selectedObject := ?p\<rparr>)"
          using pk assms nd by (auto simp: selection_valid_def)
        ultimately show ?thesis by blast
      qed
    next
      case hit
      then have "mouse_button_callback inp LEFT PRESS s
                 = Inr (?s0\<lparr>selectedAxis := a, isDragging := True, initialClickPosition := vadd ?ro ?rd\<rparr>)"
        using False sel by (simp add: mouse_button_callback_def object_click_def)
      moreover have "selection_valid
            (?s0\<lparr>selectedAxis := a, isDragging := True, initialClickPosition := vadd ?ro ?rd\<rparr>)"
        using hit(1) rng assms by (auto simp: selection_valid_def)
      ultimately show ?thesis by blast
    next
      case stale
      then have "mouse_button_callback inp LEFT PRESS s
                 = Inr (?s0\<lparr>initialClickPosition := vadd ?ro ?rd\<rparr>)"
        using False sel by (simp add: mouse_button_callback_def object_click_def)
      moreover have "selection_valid (?s0\<lparr>initialClickPosition := vadd ?ro ?rd\<rparr>)"
        using assms by (simp add: selection_valid_def)
      ultimately show ?thesis by blast
    qed
  qed
qed

lemma drag_update_selection_valid:
  assumes "selection_valid s"
  shows "\<exists>s'. drag_update ro rd s = Inr s' \<and> selection_valid s'"
proof (cases "isDragging s \<and> 0 \<le> selectedObject s \<and> 0 \<le> selectedAxis s")
  case False
  then show ?thesis using assms by (auto simp: drag_update_def)
next
  case True
  with assms have ax: "selectedAxis s = 0 \<or> selectedAxis s = 1 \<or> selectedAxis s = 2"
    and rng: "0 \<le> selectedObject s" "nat (selectedObject s) < length (objects s)"
    by (auto simp: selection_valid_def)
  from ax obtain axis where axis: "axisDirection (selectedAxis s) = Some axis"
    using axisDirection_Some_iff[of "selectedAxis s"] by blast
  obtain obj' where obj': "apply_mode (currentMode s)
             (movement_of (vadd ro rd) (initialClickPosition s) axis (movementSensitivity s))
             axis (movementSensitivity s) (objects s ! nat (selectedObject s)) = Some obj'"
    using apply_mode_Some[OF axisDirection_unit[OF axis]] by blast
  from True have dr: "isDragging s" by simp
  have "drag_update ro rd s =
          Inr (s\<lparr>objects := (objects s)[nat (selectedObject s) := obj'],
                  initialClickPosition := vadd ro rd\<rparr>)"
    using drag_update_active[OF dr rng axis, of ro rd] obj' by simp
  moreover have "selection_valid (s\<lparr>objects := (objects s)[nat (selectedObject s) := obj'],
                  initialClickPosition := vadd ro rd\<rparr>)"
    using assms by (simp add: selection_valid_def)
  ultimately show ?thesis by blast
qed

lemma step_selection_valid:
  assumes "selection_valid s"
  shows "\<exists>s'. step e s = Inr s' \<and> selection_valid s'"
proof (cases e)
  case (MouseButton inp btn act)
  show ?thesis
  proof (cases "btn = LEFT \<and> act = PRESS")
    case True
    with press_selection_valid[OF assms, of inp] MouseButton show ?thesis by simp
  next
    case False
    then show ?thesis using assms MouseButton
      by (cases btn; cases act) (simp_all add: mouse_button_callback_def selection_valid_def)
  qed
next
  case (Frame ro rd)
  with drag_update_selection_valid[OF assms, of ro rd] show ?thesis by simp
next
  case (ListSelect i)
  then show ?thesis using assms by (simp add: list_select_def selection_valid_def)
next
  case (AddButton cube)
  then show ?thesis using assms by (auto simp: add_button_def selection_valid_def)
next
  case (ModeButton m)
  then show ?thesis using assms by (simp add: mode_button_def selection_valid_def)
qed

lemma run_selection_valid:
  "selection_valid s \<Longrightarrow> \<exists>s'. run es s = Inr s' \<and> selection_valid s'"
proof (induction es arbitrary: s)
  case Nil
  then show ?case by simp
next
  case (Cons e es)
  from step_selection_valid[OF Cons.prems, of e]
  obtain s1 where s1: "step e s = Inr s1" "selection_valid s1" by blast
  from Cons.IH[OF s1(2)] s1(1) show ?case by simp
qed

lemma run_never_faults:
  "\<exists>s'. run es initial_globals = Inr s'
        \<and> (isDragging s' \<longrightarrow> 0 \<le> selectedObject s' \<and> nat (selectedObject s') < length (objects s'))"
proof -
  have "selection_valid initial_globals" by (simp add: selection_valid_def initial_globals_def)
  from run_selection_valid[OF this, of es]
  obtain s' where "run es initial_globals = Inr s'" "selection_valid s'" by blast
  then show ?thesis by (auto simp: selection_valid_def)
qed

lemma default_cube_eval: "default_cube = \<lparr>position = Vec3 0 0.5 0, scale = Vec3 1 1 1, color = Vec4 1 1 1 1, isCube = True, textureID = 0\<rparr>"
  by (simp add: default_cube_def)

text \<open>
  Claim C9 fails on the code when a second press arrives with no release between: select
  the default cube in the list, press on its X arrow, and press again on no arrow. The
  second press resets the axis to -1 (line 459) and leaves the drag flag set, so the run
  ends dragging with no axis. The selected object is still a valid index.
\<close>

theorem double_press_breaks_drag_invariant:
  "run [ListSelect 0,
        MouseButton \<lparr>WantCaptureMouse = False, camera_Position = Vec3 0 0.5 3, cursor_ray = Vec3 0 0 (-1)\<rparr> LEFT PRESS,
        MouseButton \<lparr>WantCaptureMouse = False, camera_Position = Vec3 0 0.5 3, cursor_ray = Vec3 0 1 0\<rparr> LEFT PRESS] initial_globals
   = Inr \<lparr>objects = [\<lparr>position = Vec3 0 0.5 0, scale = Vec3 1 1 1, color = Vec4 1 1 1 1, isCube = True, textureID = 0\<rparr>], selectedObject = 0, selectedAxis = -1, isDragging = True,
        initialClickPosition = Vec3 0 1.5 3, currentMode = TRANSLATE, movementSensitivity = 4.0\<rparr>
   \<and> \<not> drag_invariant \<lparr>objects = [\<lparr>position = Vec3 0 0.5 0, scale = Vec3 1 1 1, color = Vec4 1 1 1 1, isCube = True, textureID = 0\<rparr>], selectedObject = 0, selectedAxis = -1, isDragging = True,
        initialClickPosition = Vec3 0 1.5 3, currentMode = TRANSLATE, movementSensitivity = 4.0\<rparr>"
  by (simp add: initial_globals_def default_cube_eval list_select_def mouse_button_callback_def
        gizmo_click_def object_click_def arrow_clicked_eval clamp_def drag_invariant_def)

text \<open>The state after the double press: the drag flag is set, the axis is none of 0, 1
  and 2, and the selected object is an index into the objects.\<close>

theorem double_press_breaks_drag_invariant_witness:
  "isDragging \<lparr>objects = [\<lparr>position = Vec3 0 0.5 0, scale = Vec3 1 1 1, color = Vec4 1 1 1 1, isCube = True, textureID = 0\<rparr>], selectedObject = 0, selectedAxis = -1, isDragging = True,
        initialClickPosition = Vec3 0 1.5 3, currentMode = TRANSLATE, movementSensitivity = 4.0\<rparr>
   \<and> \<not> (selectedAxis \<lparr>objects = [\<lparr>position = Vec3 0 0.5 0, scale = Vec3 1 1 1, color = Vec4 1 1 1 1, isCube = True, textureID = 0\<rparr>], selectedObject = 0, selectedAxis = -1, isDragging = True,
        initialClickPosition = Vec3 0 1.5 3, currentMode = TRANSLATE, movementSensitivity = 4.0\<rparr> = 0
          \<or> selectedAxis \<lparr>objects = [\<lparr>position = Vec3 0 0.5 0, scale = Vec3 1 1 1, color = Vec4 1 1 1 1, isCube = True, textureID = 0\<rparr>], selectedObject = 0, selectedAxis = -1, isDragging = True,
        initialClickPosition = Vec3 0 1.5 3, currentMode = TRANSLATE, movementSensitivity = 4.0\<rparr> = 1
          \<or> selectedAxis \<lparr>objects = [\<lparr>position = Vec3 0 0.5 0, scale = Vec3 1 1 1, color = Vec4 1 1 1 1, isCube = True, textureID = 0\<rparr>], selectedObject = 0, selectedAxis = -1, isDragging = True,
        initialClickPosition = Vec3 0 1.5 3, currentMode = TRANSLATE, movementSensitivity = 4.0\<rparr> = 2)
   \<and> \<not> drag_invariant \<lparr>objects = [\<lparr>position = Vec3 0 0.5 0, scale = Vec3 1 1 1, color = Vec4 1 1 1 1, isCube = True, textureID = 0\<rparr>], selectedObject = 0, selectedAxis = -1, isDragging = True,
        initialClickPosition = Vec3 0 1.5 3, currentMode = TRANSLATE, movementSensitivity = 4.0\<rparr>"
  using double_press_breaks_drag_invariant by simp

lemma default_cube_hit: "RayIntersectsObject (Vec3 0 0.5 3) (Vec3 0 0 (-1)) \<lparr>position = Vec3 0 0.5 0, scale = Vec3 1 1 1, color = Vec4 1 1 1 1, isCube = True, textureID = 0\<rparr>"
proof -
  have "discriminant (Vec3 0 0.5 3) (Vec3 0 0 (-1)) \<lparr>position = Vec3 0 0.5 0, scale = Vec3 1 1 1, color = Vec4 1 1 1 1, isCube = True, textureID = 0\<rparr> = Val 3"
    by (subst discriminant_unit) (simp_all add: radius_squared_unit f_sub_def round32_quarters)
  then show ?thesis by (simp add: RayIntersectsObject_iff)
qed

lemma default_cube_missed: "\<not> RayIntersectsObject (Vec3 0 0.5 3) (Vec3 0 1 0) \<lparr>position = Vec3 0 0.5 0, scale = Vec3 1 1 1, color = Vec4 1 1 1 1, isCube = True, textureID = 0\<rparr>"
proof -
  have "discriminant (Vec3 0 0.5 3) (Vec3 0 1 0) \<lparr>position = Vec3 0 0.5 0, scale = Vec3 1 1 1, color = Vec4 1 1 1 1, isCube = True, textureID = 0\<rparr> = Val (-33)"
    by (subst discriminant_unit) (simp_all add: radius_squared_unit f_sub_def round32_quarters)
  then show ?thesis by (simp add: RayIntersectsObject_iff)
qed

text \<open>
  Claim C6 fails on the code in the same way. A press picks the default cube, a release
  follows, a press on the X arrow starts a drag, and a further press, with no release
  between, matches no arrow and no object. Line 496 skips the picking because the drag
  flag of the earlier press is still set, and the selection stays 0 where the claim
  clears it.
\<close>

theorem double_press_skips_picking:
  "run [MouseButton \<lparr>WantCaptureMouse = False, camera_Position = Vec3 0 0.5 3, cursor_ray = Vec3 0 0 (-1)\<rparr> LEFT PRESS,
        MouseButton \<lparr>WantCaptureMouse = False, camera_Position = Vec3 0 0.5 3, cursor_ray = Vec3 0 0 (-1)\<rparr> LEFT RELEASE,
        MouseButton \<lparr>WantCaptureMouse = False, camera_Position = Vec3 0 0.5 3, cursor_ray = Vec3 0 0 (-1)\<rparr> LEFT PRESS,
        MouseButton \<lparr>WantCaptureMouse = False, camera_Position = Vec3 0 0.5 3, cursor_ray = Vec3 0 1 0\<rparr> LEFT PRESS] initial_globals
   = Inr \<lparr>objects = [\<lparr>position = Vec3 0 0.5 0, scale = Vec3 1 1 1, color = Vec4 1 1 1 1, isCube = True, textureID = 0\<rparr>], selectedObject = 0, selectedAxis = -1, isDragging = True,
        initialClickPosition = Vec3 0 1.5 3, currentMode = TRANSLATE, movementSensitivity = 4.0\<rparr>
   \<and> \<not> arrow_clicked (Vec3 0 0.5 3) (Vec3 0 1 0) (Vec3 0 0.5 0) (vadd (Vec3 0 0.5 0) (Vec3 1 0 0))
   \<and> \<not> arrow_clicked (Vec3 0 0.5 3) (Vec3 0 1 0) (Vec3 0 0.5 0) (vadd (Vec3 0 0.5 0) (Vec3 0 1 0))
   \<and> \<not> arrow_clicked (Vec3 0 0.5 3) (Vec3 0 1 0) (Vec3 0 0.5 0) (vadd (Vec3 0 0.5 0) (Vec3 0 0 1))
   \<and> pick_loop (Vec3 0 0.5 3) (Vec3 0 1 0) [\<lparr>position = Vec3 0 0.5 0, scale = Vec3 1 1 1, color = Vec4 1 1 1 1, isCube = True, textureID = 0\<rparr>] 0 = -1"
  by (simp add: initial_globals_def default_cube_eval mouse_button_callback_def
        gizmo_click_def object_click_def arrow_clicked_eval clamp_def
        default_cube_hit[simplified] default_cube_missed[simplified])

end
